theory Spec2Isabelle
  imports Main
begin

section \<open>The syntax tree consumed by the state-machine-union-return rule\<close>

text \<open>
  The rule of \<^verbatim>\<open>src/eslint-plugin-state-machine/index.ts\<close> works on the ESTree
  syntax tree of one file. A node is a tagged union on its \<^verbatim>\<open>type\<close> field; the
  constructors below are the node types the rule names or whose fields its walk follows,
  each with the fields of the TSESTree declaration. Every node carries \<open>nid\<close>, the
  identity of the JavaScript object: the walk's \<^verbatim>\<open>WeakSet\<close> of visited nodes
  compares identities, not contents, and a parser gives every node of a tree its own.

  \<open>OtherNode\<close> stands for every other node type. The walk of
  \<^verbatim>\<open>findReturnedStateIds\<close> is generic: it follows the keys \<^verbatim>\<open>body\<close>,
  \<^verbatim>\<open>consequent\<close>, \<^verbatim>\<open>alternate\<close>, \<^verbatim>\<open>argument\<close> and \<^verbatim>\<open>cases\<close>
  of whatever node it meets. \<open>walked\<close> lists the children such a node holds under these
  keys, in that order (the elements of an array-valued \<^verbatim>\<open>body\<close> one by one);
  \<open>unwalked\<close> lists the children under all other keys (\<^verbatim>\<open>test\<close>,
  \<^verbatim>\<open>expression\<close>, \<^verbatim>\<open>block\<close>, \<^verbatim>\<open>handler\<close>, \<^verbatim>\<open>declarations\<close>, ...).
\<close>

datatype literal_value =
    StringValue string
  | NumberValue int
  | BooleanValue bool
  | NullValue
  | OtherValue

datatype node =
    Identifier (nid: nat) string
  | Literal (nid: nat) literal_value
  | MemberExpression (nid: nat) node node bool
  | NewExpression (nid: nat) node "node list"
  | ObjectExpression (nid: nat) "node list"
  | Property (nid: nat) node node bool
  | SpreadElement (nid: nat) node
  | ArrayExpression (nid: nat) "node option list"
  | ArrowFunctionExpression (nid: nat) "node list" node
  | FunctionExpression (nid: nat) "node list" node
  | BlockStatement (nid: nat) "node list"
  | ReturnStatement (nid: nat) "node option"
  | IfStatement (nid: nat) node node "node option"
  | ConditionalExpression (nid: nat) node node node
  | SwitchStatement (nid: nat) node "node list"
  | SwitchCase (nid: nat) "node option" "node list"
  | OtherNode (nid: nat) string "node list" "node list"

text \<open>
  Field order: \<open>MemberExpression id object property computed\<close>,
  \<open>NewExpression id callee arguments\<close>, \<open>ObjectExpression id properties\<close>,
  \<open>Property id key value computed\<close>, \<open>SpreadElement id argument\<close>,
  \<open>ArrayExpression id elements\<close> (a hole is \<open>None\<close>),
  \<open>ArrowFunctionExpression id params body\<close>, \<open>FunctionExpression id params body\<close>,
  \<open>BlockStatement id body\<close>, \<open>ReturnStatement id argument\<close>,
  \<open>IfStatement id test consequent alternate\<close>,
  \<open>ConditionalExpression id test consequent alternate\<close>,
  \<open>SwitchStatement id discriminant cases\<close>, \<open>SwitchCase id test consequent\<close>,
  \<open>OtherNode id type walked unwalked\<close>.
\<close>

subsection \<open>The tests on node types that the rule repeats\<close>

text \<open>
  \<^verbatim>\<open>prop.type === 'Property' && prop.key.type === 'Identifier'\<close> followed by a read of
  \<^verbatim>\<open>prop.key.name\<close>: the name when the test passes. The test does not read
  \<^verbatim>\<open>prop.computed\<close>.
\<close>

fun identifierKey :: "node \<Rightarrow> string option" where
  "identifierKey (Property _ (Identifier _ name) _ _) = Some name"
| "identifierKey _ = None"

text \<open>\<^verbatim>\<open>prop.value\<close> of a node already known to be a Property.\<close>

fun propValue :: "node \<Rightarrow> node option" where
  "propValue (Property _ _ v _) = Some v"
| "propValue _ = None"

fun isObjectExpression :: "node \<Rightarrow> bool" where
  "isObjectExpression (ObjectExpression _ _) = True"
| "isObjectExpression _ = False"

fun isBlockStatement :: "node \<Rightarrow> bool" where
  "isBlockStatement (BlockStatement _ _) = True"
| "isBlockStatement _ = False"

fun isFunctionLike :: "node \<Rightarrow> bool" where
  "isFunctionLike (FunctionExpression _ _ _) = True"
| "isFunctionLike (ArrowFunctionExpression _ _ _) = True"
| "isFunctionLike _ = False"

section \<open>The Implementation Scanner\<close>

subsection \<open>\<^verbatim>\<open>extractStateIdFromExpression\<close>\<close>

text \<open>
  The loop over \<^verbatim>\<open>expression.properties\<close>: the first property with an Identifier key
  named \<^verbatim>\<open>id\<close> whose value is a string Literal decides; a property named
  \<^verbatim>\<open>id\<close> with any other value is passed over and the loop goes on. \<open>None\<close> is the
  source's \<^verbatim>\<open>null\<close> (not an ObjectExpression) and \<^verbatim>\<open>undefined\<close> (loop ended).
\<close>

fun extractStateIdLoop :: "node list \<Rightarrow> string option" where
  "extractStateIdLoop [] = None"
| "extractStateIdLoop (prop # props) =
     (if identifierKey prop = Some ''id'' then
        (case propValue prop of
           Some (Literal _ (StringValue v)) \<Rightarrow> Some v
         | _ \<Rightarrow> extractStateIdLoop props)
      else extractStateIdLoop props)"

fun extractStateIdFromExpression :: "node \<Rightarrow> string option" where
  "extractStateIdFromExpression (ObjectExpression _ properties) = extractStateIdLoop properties"
| "extractStateIdFromExpression _ = None"

subsection \<open>\<^verbatim>\<open>findReturnedStateIds\<close>\<close>

text \<open>
  \<^verbatim>\<open>stateIds\<close> is a JavaScript \<^verbatim>\<open>Set\<close>: it keeps insertion order and ignores a
  second \<^verbatim>\<open>add\<close> of the same string, so it is a list without duplicates, appended to.
  \<^verbatim>\<open>if (stateId) stateIds.add(stateId)\<close> skips \<^verbatim>\<open>null\<close>, \<^verbatim>\<open>undefined\<close> and
  also the empty string, which is falsy.
\<close>

definition setAdd :: "string \<Rightarrow> string list \<Rightarrow> string list" where
  "setAdd v vs = (if v \<in> set vs then vs else vs @ [v])"

fun addStateId :: "string option \<Rightarrow> string list \<Rightarrow> string list" where
  "addStateId None stateIds = stateIds"
| "addStateId (Some stateId) stateIds = (if stateId = [] then stateIds else setAdd stateId stateIds)"

text \<open>
  The state of the walk: the identities in \<^verbatim>\<open>visited\<close> and the contents of
  \<^verbatim>\<open>stateIds\<close>.
\<close>

type_synonym walk_state = "nat set \<times> string list"

text \<open>
  \<^verbatim>\<open>visit\<close> called on an array, which happens for \<^verbatim>\<open>SwitchCase.consequent\<close> (a
  \<^verbatim>\<open>Statement[]\<close>) only: the array passes the guard and is added to \<^verbatim>\<open>visited\<close>,
  but it has no key \<^verbatim>\<open>type\<close>, \<^verbatim>\<open>body\<close>, \<^verbatim>\<open>consequent\<close>, \<^verbatim>\<open>alternate\<close>,
  \<^verbatim>\<open>argument\<close> or \<^verbatim>\<open>cases\<close>, so none of the five tests holds and the call returns
  without looking at an element. (Only \<^verbatim>\<open>body\<close> is tested with \<^verbatim>\<open>Array.isArray\<close>.)
  The array's own identity is met nowhere else, so its entry in \<^verbatim>\<open>visited\<close> is not
  kept in the model.
\<close>

definition visitArray :: "node list \<Rightarrow> walk_state \<Rightarrow> walk_state" where
  "visitArray elems st = st"

text \<open>
  \<^verbatim>\<open>visit\<close>, one equation per node type, and \<^verbatim>\<open>forEach(visit)\<close> as \<open>visitEach\<close>.
  Every equation starts with the guard \<^verbatim>\<open>visited.has(node)\<close> and then marks the node
  (for a node type without any of the keys, guard and mark together are one \<open>insert\<close>).
  The two tests on \<^verbatim>\<open>node.type\<close> come first, then the keys in the source's order:
  \<^verbatim>\<open>body\<close>, \<^verbatim>\<open>consequent\<close>, \<^verbatim>\<open>alternate\<close>, \<^verbatim>\<open>argument\<close>, \<^verbatim>\<open>cases\<close>.
  A node type with none of these keys (Identifier, Literal, MemberExpression,
  NewExpression, ObjectExpression, Property, ArrayExpression) is marked and left.
\<close>

fun visit :: "node \<Rightarrow> walk_state \<Rightarrow> walk_state"
  and visitEach :: "node list \<Rightarrow> walk_state \<Rightarrow> walk_state" where
  "visit (ArrowFunctionExpression i params body) (visited, stateIds) =
     (if i \<in> visited then (visited, stateIds)
      else visit body (insert i visited,
             if \<not> isBlockStatement body
             then addStateId (extractStateIdFromExpression body) stateIds
             else stateIds))"
| "visit (ReturnStatement i argument) (visited, stateIds) =
     (if i \<in> visited then (visited, stateIds)
      else (case argument of
              None \<Rightarrow> (insert i visited, stateIds)
            | Some arg \<Rightarrow>
                visit arg (insert i visited,
                  addStateId (extractStateIdFromExpression arg) stateIds)))"
| "visit (FunctionExpression i params body) (visited, stateIds) =
     (if i \<in> visited then (visited, stateIds)
      else visit body (insert i visited, stateIds))"
| "visit (BlockStatement i body) (visited, stateIds) =
     (if i \<in> visited then (visited, stateIds)
      else visitEach body (insert i visited, stateIds))"
| "visit (IfStatement i test consequent alternate) (visited, stateIds) =
     (if i \<in> visited then (visited, stateIds)
      else (case alternate of
              None \<Rightarrow> visit consequent (insert i visited, stateIds)
            | Some alt \<Rightarrow> visit alt (visit consequent (insert i visited, stateIds))))"
| "visit (ConditionalExpression i test consequent alternate) (visited, stateIds) =
     (if i \<in> visited then (visited, stateIds)
      else visit alternate (visit consequent (insert i visited, stateIds)))"
| "visit (SwitchCase i test consequent) (visited, stateIds) =
     (if i \<in> visited then (visited, stateIds)
      else visitArray consequent (insert i visited, stateIds))"
| "visit (SpreadElement i argument) (visited, stateIds) =
     (if i \<in> visited then (visited, stateIds)
      else visit argument (insert i visited, stateIds))"
| "visit (SwitchStatement i discriminant cases) (visited, stateIds) =
     (if i \<in> visited then (visited, stateIds)
      else visitEach cases (insert i visited, stateIds))"
| "visit (OtherNode i ty walked unwalked) (visited, stateIds) =
     (if i \<in> visited then (visited, stateIds)
      else visitEach walked (insert i visited, stateIds))"
| "visit (Identifier i name) (visited, stateIds) = (insert i visited, stateIds)"
| "visit (Literal i v) (visited, stateIds) = (insert i visited, stateIds)"
| "visit (MemberExpression i obj property computed) (visited, stateIds) =
     (insert i visited, stateIds)"
| "visit (NewExpression i callee arguments) (visited, stateIds) = (insert i visited, stateIds)"
| "visit (ObjectExpression i properties) (visited, stateIds) = (insert i visited, stateIds)"
| "visit (Property i key v computed) (visited, stateIds) = (insert i visited, stateIds)"
| "visit (ArrayExpression i elements) (visited, stateIds) = (insert i visited, stateIds)"
| "visitEach [] st = st"
| "visitEach (n # ns) st = visitEach ns (visit n st)"

definition findReturnedStateIds :: "node \<Rightarrow> string list" where
  "findReturnedStateIds funcNode = snd (visit funcNode ({}, []))"

subsection \<open>\<^verbatim>\<open>getExecuteFromObject\<close> and \<^verbatim>\<open>findExecuteMethod\<close>\<close>

fun getExecuteLoop :: "node list \<Rightarrow> node option" where
  "getExecuteLoop [] = None"
| "getExecuteLoop (prop # props) =
     (if identifierKey prop = Some ''execute'' then
        (case propValue prop of
           Some v \<Rightarrow> if isFunctionLike v then Some v else getExecuteLoop props
         | None \<Rightarrow> getExecuteLoop props)
      else getExecuteLoop props)"

fun getExecuteFromObject :: "node \<Rightarrow> node option" where
  "getExecuteFromObject (ObjectExpression _ properties) = getExecuteLoop properties"
| "getExecuteFromObject _ = None"

text \<open>
  The loop over the statements of a block body, the same in both branches of
  \<^verbatim>\<open>findExecuteMethod\<close>: the first ReturnStatement whose argument is an
  ObjectExpression ends the search with \<^verbatim>\<open>getExecuteFromObject\<close> of it, found or not.
\<close>

fun findExecuteInBody :: "node list \<Rightarrow> node option" where
  "findExecuteInBody [] = None"
| "findExecuteInBody (stmt # stmts) =
     (case stmt of
        ReturnStatement _ (Some arg) \<Rightarrow>
          if isObjectExpression arg then getExecuteFromObject arg else findExecuteInBody stmts
      | _ \<Rightarrow> findExecuteInBody stmts)"

fun findExecuteMethod :: "node \<Rightarrow> node option" where
  "findExecuteMethod (ArrowFunctionExpression _ _ body) =
     (case body of
        ObjectExpression _ _ \<Rightarrow> getExecuteFromObject body
      | BlockStatement _ stmts \<Rightarrow> findExecuteInBody stmts
      | _ \<Rightarrow> None)"
| "findExecuteMethod (FunctionExpression _ _ body) =
     (case body of
        BlockStatement _ stmts \<Rightarrow> findExecuteInBody stmts
      | _ \<Rightarrow> None)"
| "findExecuteMethod _ = None"

section \<open>The Coverage Classifier: \<^verbatim>\<open>analyzeCommandFactory\<close>\<close>

text \<open>
  \<^verbatim>\<open>context.report\<close> appends to the list of reports of the run; each function below
  returns the reports it makes, in order. The spec's ALWAYS_SAME_STATE is the message id
  \<^verbatim>\<open>alwaysSameState\<close>, its PARTIAL_UNION is \<^verbatim>\<open>missingUnionReturn\<close>.
\<close>

datatype message_id = missingUnionReturn | alwaysSameState

record report =
  report_node :: node
  messageId :: message_id
  data_message :: string
  data_count :: string
  data_states :: string
  data_actualState :: string

text \<open>\<^verbatim>\<open>Array.prototype.join\<close> with a separator.\<close>

fun join :: "string \<Rightarrow> string list \<Rightarrow> string" where
  "join sep [] = []"
| "join sep [v] = v"
| "join sep (v # w # ws) = v @ sep @ join sep (w # ws)"

text \<open>\<^verbatim>\<open>Number.prototype.toString\<close> of a length: the decimal digits.\<close>

definition digit :: "nat \<Rightarrow> char" where
  "digit d = ''0123456789'' ! d"

function toString :: "nat \<Rightarrow> string" where
  "toString n = (if n < 10 then [digit n] else toString (n div 10) @ [digit (n mod 10)])"
  by pat_completeness auto
termination
  by (relation "measure id") auto

declare toString.simps [simp del]

definition analyzeCommandFactory :: "node \<Rightarrow> string \<Rightarrow> string list \<Rightarrow> report list" where
  "analyzeCommandFactory factoryNode messageName targetStates =
     (case findExecuteMethod factoryNode of
        None \<Rightarrow> []
      | Some executeFunc \<Rightarrow>
          (let returnedStateIds = findReturnedStateIds executeFunc in
           if length returnedStateIds = 1 then
             [\<lparr> report_node = executeFunc, messageId = alwaysSameState,
                data_message = messageName,
                data_count = toString (length targetStates),
                data_states = join '', '' targetStates,
                data_actualState = hd returnedStateIds \<rparr>]
           else if length returnedStateIds > 0 \<and> length returnedStateIds < length targetStates then
             [\<lparr> report_node = executeFunc, messageId = missingUnionReturn,
                data_message = messageName,
                data_count = toString (length targetStates),
                data_states = join '', '' targetStates,
                data_actualState = join '', '' returnedStateIds \<rparr>]
           else []))"

section \<open>The Config Extractor: \<^verbatim>\<open>parseStateMachineConfig\<close>\<close>

text \<open>
  The Transition Table is a \<^verbatim>\<open>Map\<close> from state names to \<^verbatim>\<open>Map\<close>s from message names
  to arrays of strings. Only \<^verbatim>\<open>get\<close> and \<^verbatim>\<open>set\<close> are used on either, so each is a
  partial function; \<^verbatim>\<open>set\<close> on a key that is present replaces its value.
\<close>

type_synonym message_map = "string \<rightharpoonup> string list"
type_synonym transition_table = "string \<rightharpoonup> message_map"

text \<open>
  The loop over \<^verbatim>\<open>msgProp.value.elements\<close> with \<^verbatim>\<open>targetStates.push\<close>; a hole of
  the array literal is \<^verbatim>\<open>null\<close>.
\<close>

fun pushTargetStates :: "node option list \<Rightarrow> string list \<Rightarrow> string list" where
  "pushTargetStates [] targetStates = targetStates"
| "pushTargetStates (elem # elems) targetStates =
     (case elem of
        Some (Literal _ (StringValue v)) \<Rightarrow> pushTargetStates elems (targetStates @ [v])
      | _ \<Rightarrow> pushTargetStates elems targetStates)"

text \<open>
  \<^verbatim>\<open>targetStates\<close> of one message property: empty unless the value is an
  ArrayExpression.
\<close>

fun targetStatesOf :: "node \<Rightarrow> string list" where
  "targetStatesOf (ArrayExpression _ elements) = pushTargetStates elements []"
| "targetStatesOf _ = []"

text \<open>The loop over \<^verbatim>\<open>onProp.value.properties\<close>, filling \<^verbatim>\<open>messageMap\<close>.\<close>

fun parseMessages :: "node list \<Rightarrow> message_map \<Rightarrow> message_map" where
  "parseMessages [] messageMap = messageMap"
| "parseMessages (msgProp # msgProps) messageMap =
     (case (identifierKey msgProp, propValue msgProp) of
        (Some messageName, Some v) \<Rightarrow>
          (let targetStates = targetStatesOf v in
           parseMessages msgProps
             (if length targetStates > 0 then messageMap(messageName \<mapsto> targetStates)
              else messageMap))
      | _ \<Rightarrow> parseMessages msgProps messageMap)"

text \<open>
  \<^verbatim>\<open>stateConfig.properties.find(...)\<close> for the property named \<^verbatim>\<open>on\<close>, then the test
  that its value is an ObjectExpression: the properties of that object, or \<open>None\<close> where
  the source \<^verbatim>\<open>continue\<close>s. Only the first property named \<^verbatim>\<open>on\<close> is looked at.
\<close>

definition findOnProperties :: "node list \<Rightarrow> node list option" where
  "findOnProperties properties =
     (case find (\<lambda>p. identifierKey p = Some ''on'') properties of
        None \<Rightarrow> None
      | Some onProp \<Rightarrow>
          (case propValue onProp of
             Some (ObjectExpression _ msgProps) \<Rightarrow> Some msgProps
           | _ \<Rightarrow> None))"

text \<open>The loop over \<^verbatim>\<open>configNode.properties\<close>, filling \<^verbatim>\<open>transitions\<close>.\<close>

fun parseStates :: "node list \<Rightarrow> transition_table \<Rightarrow> transition_table" where
  "parseStates [] transitions = transitions"
| "parseStates (stateProp # stateProps) transitions =
     (case (identifierKey stateProp, propValue stateProp) of
        (Some stateName, Some (ObjectExpression _ properties)) \<Rightarrow>
          (case findOnProperties properties of
             None \<Rightarrow> parseStates stateProps transitions
           | Some msgProps \<Rightarrow>
               parseStates stateProps
                 (transitions(stateName \<mapsto> parseMessages msgProps Map.empty)))
      | _ \<Rightarrow> parseStates stateProps transitions)"

fun parseStateMachineConfig :: "node \<Rightarrow> transition_table" where
  "parseStateMachineConfig (ObjectExpression _ properties) = parseStates properties Map.empty"
| "parseStateMachineConfig _ = Map.empty"

section \<open>\<^verbatim>\<open>checkCommands\<close>\<close>

text \<open>
  The inner loop, over the properties of one state's commands. \<^verbatim>\<open>!targetStates\<close> holds
  for a missing key only (an array is truthy, also when empty).
\<close>

fun checkMessages :: "node list \<Rightarrow> message_map \<Rightarrow> report list" where
  "checkMessages [] messageMap = []"
| "checkMessages (msgProp # msgProps) messageMap =
     (case (identifierKey msgProp, propValue msgProp) of
        (Some messageName, Some commandFactory) \<Rightarrow>
          (case messageMap messageName of
             None \<Rightarrow> checkMessages msgProps messageMap
           | Some targetStates \<Rightarrow>
               if length targetStates \<le> 1 then checkMessages msgProps messageMap
               else analyzeCommandFactory commandFactory messageName targetStates
                    @ checkMessages msgProps messageMap)
      | _ \<Rightarrow> checkMessages msgProps messageMap)"

text \<open>The outer loop, over \<^verbatim>\<open>commandsNode.properties\<close>.\<close>

fun checkStates :: "node list \<Rightarrow> transition_table \<Rightarrow> report list" where
  "checkStates [] transitions = []"
| "checkStates (stateProp # stateProps) transitions =
     (case (identifierKey stateProp, propValue stateProp) of
        (Some stateName, Some (ObjectExpression _ msgProps)) \<Rightarrow>
          (case transitions stateName of
             None \<Rightarrow> checkStates stateProps transitions
           | Some messageMap \<Rightarrow>
               checkMessages msgProps messageMap @ checkStates stateProps transitions)
      | _ \<Rightarrow> checkStates stateProps transitions)"

fun checkCommands :: "node \<Rightarrow> transition_table \<Rightarrow> report list" where
  "checkCommands (ObjectExpression _ properties) transitions = checkStates properties transitions"
| "checkCommands _ transitions = []"

section \<open>The Syntax Locator: the \<^verbatim>\<open>NewExpression\<close> listener\<close>

fun isStateMachine :: "node \<Rightarrow> bool" where
  "isStateMachine (Identifier _ name) = (name = ''StateMachine'')"
| "isStateMachine (MemberExpression _ _ (Identifier _ name) _) = (name = ''StateMachine'')"
| "isStateMachine _ = False"

text \<open>
  The loop over \<^verbatim>\<open>configObj.properties\<close> that sets \<^verbatim>\<open>configProp\<close> and
  \<^verbatim>\<open>commandsProp\<close>; a later property of the same name replaces an earlier one.
\<close>

fun findConfigAndCommands ::
  "node list \<Rightarrow> node option \<times> node option \<Rightarrow> node option \<times> node option" where
  "findConfigAndCommands [] found = found"
| "findConfigAndCommands (prop # props) (configProp, commandsProp) =
     (case (identifierKey prop, propValue prop) of
        (Some name, Some v) \<Rightarrow>
          findConfigAndCommands props
            (if name = ''config'' \<and> isObjectExpression v then Some v else configProp,
             if name = ''commands'' \<and> isObjectExpression v then Some v else commandsProp)
      | _ \<Rightarrow> findConfigAndCommands props (configProp, commandsProp))"

text \<open>Lines 60 to 83 of the listener: what is done with the first argument.\<close>

fun analyzeConfigObj :: "node \<Rightarrow> report list" where
  "analyzeConfigObj (ObjectExpression _ properties) =
     (case findConfigAndCommands properties (None, None) of
        (Some configProp, Some commandsProp) \<Rightarrow>
          checkCommands commandsProp (parseStateMachineConfig configProp)
      | _ \<Rightarrow> [])"
| "analyzeConfigObj _ = []"

text \<open>
  The listener. It is registered for NewExpression nodes only, so any other node gives no
  report.
\<close>

fun onNewExpression :: "node \<Rightarrow> report list" where
  "onNewExpression (NewExpression _ callee arguments) =
     (if \<not> isStateMachine callee then []
      else (case arguments of
              [] \<Rightarrow> []
            | arg0 # _ \<Rightarrow> if \<not> isObjectExpression arg0 then [] else analyzeConfigObj arg0))"
| "onNewExpression _ = []"

section \<open>Reference notions used to state the properties\<close>

subsection \<open>The declared targets of a config, in the words of the specification\<close>

text \<open>
  A plain string-literal element of an array literal, and the subsequence of the
  elements that are such literals: left to right, duplicates kept.
\<close>

fun literalString :: "node option \<Rightarrow> string option" where
  "literalString (Some (Literal _ (StringValue v))) = Some v"
| "literalString _ = None"

fun declaredTargetList :: "node \<Rightarrow> string list" where
  "declaredTargetList (ArrayExpression _ elements) = List.map_filter literalString elements"
| "declaredTargetList _ = []"

text \<open>
  The retained lists of the entries that an \<^verbatim>\<open>on\<close> object has for one message name, in
  source order, without the empty ones. An object literal may repeat a key; the entry
  written last is the one in force.
\<close>

definition retainedLists :: "string \<Rightarrow> node list \<Rightarrow> string list list" where
  "retainedLists messageName msgProps =
     filter (\<lambda>targets. targets \<noteq> [])
       (map (\<lambda>p. case propValue p of Some v \<Rightarrow> declaredTargetList v | None \<Rightarrow> [])
          (filter (\<lambda>p. identifierKey p = Some messageName) msgProps))"

definition lastOption :: "'a list \<Rightarrow> 'a option" where
  "lastOption xs = (if xs = [] then None else Some (last xs))"

text \<open>
  The message map that one property of the config object gives to a state name: none
  unless the key is that name, the value a literal structure, and its first \<^verbatim>\<open>on\<close>
  entry a literal structure too.
\<close>

definition stateEntry :: "string \<Rightarrow> node \<Rightarrow> message_map option" where
  "stateEntry stateName p =
     (case (identifierKey p, propValue p) of
        (Some name, Some (ObjectExpression _ properties)) \<Rightarrow>
          if name = stateName
          then map_option (\<lambda>msgProps m. lastOption (retainedLists m msgProps))
                 (findOnProperties properties)
          else None
      | _ \<Rightarrow> None)"

text \<open>The entry of a table for a state and a message, if both are present.\<close>

definition lookupTargets :: "transition_table \<Rightarrow> string \<Rightarrow> string \<Rightarrow> string list option" where
  "lookupTargets transitions stateName messageName =
     (case transitions stateName of None \<Rightarrow> None | Some messageMap \<Rightarrow> messageMap messageName)"

subsection \<open>The recognized name of the constructed abstraction\<close>

text \<open>
  The name \<^verbatim>\<open>StateMachine\<close> written directly, or as the final segment of a qualified
  path (\<^verbatim>\<open>fsm.StateMachine\<close>, a member expression that is not computed).
\<close>

fun recognizedName :: "node \<Rightarrow> bool" where
  "recognizedName (Identifier _ name) = (name = ''StateMachine'')"
| "recognizedName (MemberExpression _ _ (Identifier _ name) computed) =
     (\<not> computed \<and> name = ''StateMachine'')"
| "recognizedName _ = False"

text \<open>
  A computed member access whose property expression is the identifier
  \<^verbatim>\<open>StateMachine\<close>, as in \<^verbatim>\<open>fsm[StateMachine]\<close>: a lookup through a variable, not a
  path that ends in the name.
\<close>

fun computedLookup :: "node \<Rightarrow> bool" where
  "computedLookup (MemberExpression _ _ (Identifier _ name) computed) =
     (computed \<and> name = ''StateMachine'')"
| "computedLookup _ = False"

subsection \<open>Factories that differ in \<^verbatim>\<open>undo\<close> properties only\<close>

text \<open>
  A literal structure without its properties named \<^verbatim>\<open>undo\<close>, and a factory whose
  returned structures (the implicit one of an arrow function, and the argument of every
  top-level return statement of a block body) are so stripped. Two factories differ in
  \<^verbatim>\<open>undo\<close> properties only when stripping makes them equal.
\<close>

fun withoutUndo :: "node \<Rightarrow> node" where
  "withoutUndo (ObjectExpression i properties) =
     ObjectExpression i (filter (\<lambda>p. identifierKey p \<noteq> Some ''undo'') properties)"
| "withoutUndo n = n"

fun withoutUndoReturn :: "node \<Rightarrow> node" where
  "withoutUndoReturn (ReturnStatement i (Some arg)) = ReturnStatement i (Some (withoutUndo arg))"
| "withoutUndoReturn stmt = stmt"

fun withoutUndoBody :: "node \<Rightarrow> node" where
  "withoutUndoBody (ObjectExpression i properties) = withoutUndo (ObjectExpression i properties)"
| "withoutUndoBody (BlockStatement i stmts) = BlockStatement i (map withoutUndoReturn stmts)"
| "withoutUndoBody body = body"

fun withoutUndoFactory :: "node \<Rightarrow> node" where
  "withoutUndoFactory (ArrowFunctionExpression i params body) =
     ArrowFunctionExpression i params (withoutUndoBody body)"
| "withoutUndoFactory (FunctionExpression i params body) =
     FunctionExpression i params (withoutUndoBody body)"
| "withoutUndoFactory n = n"

subsection \<open>The nodes of a tree\<close>





subsection \<open>Properties whose key is an Identifier node\<close>

definition hasIdentifierKey :: "node \<Rightarrow> bool" where
  "hasIdentifierKey p = (identifierKey p \<noteq> None)"

fun isIdentifier :: "node \<Rightarrow> bool" where
  "isIdentifier (Identifier _ _) = True"
| "isIdentifier _ = False"

text \<open>
  An entry with its \<^verbatim>\<open>computed\<close> flag set to a given value. Two lists of entries are the
  same up to the flags when setting all flags to \<^verbatim>\<open>false\<close> makes them equal.
\<close>

fun withComputed :: "bool \<Rightarrow> node \<Rightarrow> node" where
  "withComputed b (Property i key v computed) = Property i key v b"
| "withComputed b n = n"

definition sameUpToComputed :: "node list \<Rightarrow> node list \<Rightarrow> bool" where
  "sameUpToComputed props props' =
     (map (withComputed False) props = map (withComputed False) props')"

section \<open>Example programs\<close>

text \<open>
  Execute thunks, each an arrow function:
  \<^verbatim>\<open>() => ({ id: s })\<close>,
  \<^verbatim>\<open>() => { if (cond) { return { id: s }; } return { id: t }; }\<close>,
  \<^verbatim>\<open>() => { switch (kind) { case 1: return { id: s }; default: return { id: t }; } }\<close>
  and \<^verbatim>\<open>() => ({ id: next })\<close>, whose \<^verbatim>\<open>id\<close> is not a literal.
\<close>

definition returnOf :: "nat \<Rightarrow> string \<Rightarrow> node" where
  "returnOf i s =
     ReturnStatement i (Some (ObjectExpression (i + 1)
       [Property (i + 2) (Identifier (i + 3) ''id'') (Literal (i + 4) (StringValue s)) False]))"

definition thunkConst :: "string \<Rightarrow> node" where
  "thunkConst s =
     ArrowFunctionExpression 100 []
       (ObjectExpression 101
          [Property 102 (Identifier 103 ''id'') (Literal 104 (StringValue s)) False])"

definition thunkIf :: "string \<Rightarrow> string \<Rightarrow> node" where
  "thunkIf s t =
     ArrowFunctionExpression 100 []
       (BlockStatement 101
          [IfStatement 102 (Identifier 103 ''cond'')
             (BlockStatement 104 [returnOf 110 s]) None,
           returnOf 120 t])"

definition thunkSwitch :: "string \<Rightarrow> string \<Rightarrow> node" where
  "thunkSwitch s t =
     ArrowFunctionExpression 100 []
       (BlockStatement 101
          [SwitchStatement 102 (Identifier 103 ''kind'')
             [SwitchCase 104 (Some (Literal 105 (NumberValue 1))) [returnOf 110 s],
              SwitchCase 106 None [returnOf 120 t]]])"

definition thunkComputed :: node where
  "thunkComputed =
     ArrowFunctionExpression 100 []
       (ObjectExpression 101
          [Property 102 (Identifier 103 ''id'') (Identifier 104 ''next'') False])"

text \<open>
  Command factories around a thunk: \<^verbatim>\<open>({ message }) => ({ execute: thunk })\<close> and
  \<^verbatim>\<open>({ message }) => ({ execute: thunk, undo: other })\<close>.
\<close>

definition factoryOf :: "node \<Rightarrow> node" where
  "factoryOf thunk =
     ArrowFunctionExpression 30 [OtherNode 31 ''ObjectPattern'' [] []]
       (ObjectExpression 32 [Property 33 (Identifier 34 ''execute'') thunk False])"

definition factoryWithUndo :: "node \<Rightarrow> node \<Rightarrow> node" where
  "factoryWithUndo thunk other =
     ArrowFunctionExpression 30 [OtherNode 31 ''ObjectPattern'' [] []]
       (ObjectExpression 32
          [Property 33 (Identifier 34 ''execute'') thunk False,
           Property 35 (Identifier 36 ''undo'') other False])"

text \<open>
  A factory written with \<^verbatim>\<open>function\<close>:
  \<^verbatim>\<open>function () { return { execute: function () { return { id: s }; } }; }\<close>.
\<close>

definition thunkFunction :: "string \<Rightarrow> node" where
  "thunkFunction s = FunctionExpression 66 [] (BlockStatement 67 [returnOf 70 s])"

definition factoryFunction :: "string \<Rightarrow> node" where
  "factoryFunction s =
     FunctionExpression 60 []
       (BlockStatement 61
          [ReturnStatement 62 (Some (ObjectExpression 63
             [Property 64 (Identifier 65 ''execute'') (thunkFunction s) False]))])"

text \<open>
  The config \<^verbatim>\<open>{ idle: { on: { activate: [elements] } } }\<close> with the key of the state
  entry left open (\<^verbatim>\<open>idle\<close>, \<^verbatim>\<open>'idle'\<close> or \<^verbatim>\<open>[idle]\<close>), the commands
  \<^verbatim>\<open>{ idle: { activate: factory } }\<close>, and the construction
  \<^verbatim>\<open>new StateMachine({ config: ..., commands: ... }, extra...)\<close>.
\<close>

definition stringElements :: "string list \<Rightarrow> node option list" where
  "stringElements targets =
     map (\<lambda>(k, v). Some (Literal (40 + k) (StringValue v))) (enumerate 0 targets)"

definition activateEntry :: "node option list \<Rightarrow> node" where
  "activateEntry elements =
     Property 12 (Identifier 13 ''activate'') (ArrayExpression 14 elements) False"

definition configOf :: "node \<Rightarrow> bool \<Rightarrow> node option list \<Rightarrow> node" where
  "configOf stateKey computed elements =
     ObjectExpression 5
       [Property 6 stateKey
          (ObjectExpression 8
             [Property 9 (Identifier 10 ''on'')
                (ObjectExpression 11 [activateEntry elements]) False])
          computed]"

definition commandsOf :: "node \<Rightarrow> node" where
  "commandsOf factory =
     ObjectExpression 22
       [Property 23 (Identifier 24 ''idle'')
          (ObjectExpression 25 [Property 26 (Identifier 27 ''activate'') factory False])
          False]"

definition machineArg :: "node option list \<Rightarrow> node \<Rightarrow> node" where
  "machineArg elements factory =
     ObjectExpression 2
       [Property 3 (Identifier 4 ''config'')
          (configOf (Identifier 7 ''idle'') False elements) False,
        Property 20 (Identifier 21 ''commands'') (commandsOf factory) False]"

definition newStateMachine :: "node list \<Rightarrow> node" where
  "newStateMachine arguments = NewExpression 0 (Identifier 1 ''StateMachine'') arguments"

text \<open>
  A second function-style factory around any thunk, and a function-style thunk with a
  branch: \<^verbatim>\<open>function () { if (cond) return { id: s }; return { id: t }; }\<close>.
\<close>

definition factoryReturning :: "node \<Rightarrow> node" where
  "factoryReturning thunk =
     FunctionExpression 60 []
       (BlockStatement 61
          [ReturnStatement 62 (Some (ObjectExpression 63
             [Property 64 (Identifier 65 ''execute'') thunk False]))])"

definition thunkFunctionIf :: "string \<Rightarrow> string \<Rightarrow> node" where
  "thunkFunctionIf s t =
     FunctionExpression 66 []
       (BlockStatement 67
          [IfStatement 68 (Identifier 69 ''cond'') (returnOf 70 s) None, returnOf 80 t])"

text \<open>
  The constructor argument
  \<^verbatim>\<open>{ config: { idle: { on: { messages } } }, commands: { idle: { commands } } }\<close>
  with the entries of both objects left open, and the config entry
  \<^verbatim>\<open>stop: ['a', 'b']\<close>.
\<close>

definition stopEntry :: node where
  "stopEntry =
     Property 16 (Identifier 17 ''stop'')
       (ArrayExpression 18
          [Some (Literal 50 (StringValue ''a'')), Some (Literal 51 (StringValue ''b''))])
       False"

definition machineOf :: "node list \<Rightarrow> node list \<Rightarrow> node" where
  "machineOf msgEntries cmdEntries =
     ObjectExpression 2
       [Property 3 (Identifier 4 ''config'')
          (ObjectExpression 5
             [Property 6 (Identifier 7 ''idle'')
                (ObjectExpression 8
                   [Property 9 (Identifier 10 ''on'') (ObjectExpression 11 msgEntries) False])
                False])
          False,
        Property 20 (Identifier 21 ''commands'')
          (ObjectExpression 22
             [Property 23 (Identifier 24 ''idle'') (ObjectExpression 25 cmdEntries) False])
          False]"

section \<open>Properties\<close>

subsection \<open>The walk keeps a set\<close>

lemma addStateId_distinct: "distinct stateIds \<Longrightarrow> distinct (addStateId r stateIds)"
  by (cases r) (auto simp: setAdd_def)

lemma visit_distinct:
  "distinct (snd st) \<Longrightarrow> distinct (snd (visit n st))"
  "distinct (snd st) \<Longrightarrow> distinct (snd (visitEach ns st))"
  by (induction n st and ns st rule: visit_visitEach.induct)
     (auto simp: addStateId_distinct visitArray_def split: option.splits)

lemma findReturnedStateIds_distinct: "distinct (findReturnedStateIds funcNode)"
  unfolding findReturnedStateIds_def by (rule visit_distinct) simp

subsection \<open>The Coverage Classifier\<close>

text \<open>
  \<^bold>\<open>C4.\<close> For a pair with at least two declared targets the analyzer reports nothing
  when no execute thunk is located, when the Returned-State Set is empty, and when the set
  has at least as many elements as targets are declared, whatever the elements are.
\<close>

theorem no_report_when_undetermined_or_covered:
  assumes "2 \<le> length targetStates"
    and "findExecuteMethod factoryNode = None
         \<or> (\<exists>executeFunc. findExecuteMethod factoryNode = Some executeFunc
              \<and> (findReturnedStateIds executeFunc = []
                   \<or> length targetStates \<le> length (findReturnedStateIds executeFunc)))"
  shows "analyzeCommandFactory factoryNode messageName targetStates = []"
  using assms by (auto simp: analyzeCommandFactory_def Let_def)

text \<open>
  A factory that is a reference and not a function; a thunk whose \<^verbatim>\<open>id\<close> is not a
  literal; a thunk returning \<^verbatim>\<open>x\<close> and \<^verbatim>\<open>y\<close> where \<^verbatim>\<open>a\<close> and \<^verbatim>\<open>b\<close> are
  declared.
\<close>

theorem no_report_when_undetermined_or_covered_witness:
  "2 \<le> length [''a'', ''b'']
   \<and> findExecuteMethod (Identifier 30 ''makeCommand'') = None
   \<and> analyzeCommandFactory (Identifier 30 ''makeCommand'') ''activate'' [''a'', ''b''] = []
   \<and> findExecuteMethod (factoryOf thunkComputed) = Some thunkComputed
   \<and> findReturnedStateIds thunkComputed = []
   \<and> analyzeCommandFactory (factoryOf thunkComputed) ''activate'' [''a'', ''b''] = []
   \<and> findExecuteMethod (factoryOf (thunkIf ''x'' ''y'')) = Some (thunkIf ''x'' ''y'')
   \<and> findReturnedStateIds (thunkIf ''x'' ''y'') = [''x'', ''y'']
   \<and> analyzeCommandFactory (factoryOf (thunkIf ''x'' ''y'')) ''activate'' [''a'', ''b''] = []"
proof -
  have len: "2 \<le> length [''a'', ''b'']" by simp
  have none: "findExecuteMethod (Identifier 30 ''makeCommand'') = None" by simp
  have exc: "findExecuteMethod (factoryOf thunkComputed) = Some thunkComputed"
    by (simp add: factoryOf_def thunkComputed_def)
  have idc: "findReturnedStateIds thunkComputed = []"
    by (simp add: thunkComputed_def findReturnedStateIds_def)
  have exi: "findExecuteMethod (factoryOf (thunkIf ''x'' ''y'')) = Some (thunkIf ''x'' ''y'')"
    by (simp add: factoryOf_def thunkIf_def)
  have idi: "findReturnedStateIds (thunkIf ''x'' ''y'') = [''x'', ''y'']"
    by (simp add: thunkIf_def returnOf_def findReturnedStateIds_def setAdd_def)
  have r1: "analyzeCommandFactory (Identifier 30 ''makeCommand'') ''activate'' [''a'', ''b''] = []"
    using no_report_when_undetermined_or_covered [OF len, of "Identifier 30 ''makeCommand''"] none
    by simp
  have r2: "analyzeCommandFactory (factoryOf thunkComputed) ''activate'' [''a'', ''b''] = []"
    using no_report_when_undetermined_or_covered [OF len, of "factoryOf thunkComputed"] exc idc
    by simp
  have r3: "analyzeCommandFactory (factoryOf (thunkIf ''x'' ''y'')) ''activate'' [''a'', ''b''] = []"
    using no_report_when_undetermined_or_covered [OF len, of "factoryOf (thunkIf ''x'' ''y'')"] exi idi
    by simp
  show ?thesis using len none exc idc exi idi r1 r2 r3 by simp
qed


subsection \<open>The walk into the cases of a switch\<close>

text \<open>
  \<^bold>\<open>C3.\<close> The claim: the walk collects the id of every return site, also inside every
  case body of a switch. The code, on
  \<^verbatim>\<open>() => { switch (kind) { case 1: return { id: 'a' }; default: return { id: 'b' }; } }\<close>:
  \<^verbatim>\<open>cases.forEach(visit)\<close> reaches each SwitchCase, whose \<^verbatim>\<open>consequent\<close> is an array
  of statements; \<^verbatim>\<open>visit\<close> of an array finds none of its keys and returns, so neither
  return statement is seen, the set stays empty and no report is made although three
  targets are declared. The same two returns under an \<^verbatim>\<open>if\<close> are both collected.
\<close>

theorem switch_case_returns_not_collected:
  "findReturnedStateIds (thunkSwitch ''a'' ''b'') = []
   \<and> analyzeCommandFactory (factoryOf (thunkSwitch ''a'' ''b'')) ''activate'' [''a'', ''b'', ''c''] = []
   \<and> findReturnedStateIds (thunkIf ''a'' ''b'') = [''a'', ''b'']"
  by (simp add: thunkSwitch_def thunkIf_def returnOf_def factoryOf_def findReturnedStateIds_def
        setAdd_def visitArray_def analyzeCommandFactory_def)

subsection \<open>The loop of \<^verbatim>\<open>checkCommands\<close>\<close>

lemma analyzeCommandFactory_message:
  "r \<in> set (analyzeCommandFactory factoryNode messageName targetStates) \<Longrightarrow>
   data_message r = messageName"
  by (auto simp: analyzeCommandFactory_def Let_def split: option.splits if_splits)

lemma checkMessages_tracked_pair:
  assumes "identifierKey msgProp = Some messageName"
    and "propValue msgProp = Some commandFactory"
    and "messageMap messageName = Some targetStates"
    and "2 \<le> length targetStates"
  shows "checkMessages (msgProp # msgProps) messageMap =
           analyzeCommandFactory commandFactory messageName targetStates
           @ checkMessages msgProps messageMap"
  using assms by simp

lemma checkMessages_tracked:
  "r \<in> set (checkMessages msgProps messageMap) \<Longrightarrow>
   \<exists>targetStates. messageMap (data_message r) = Some targetStates \<and> 2 \<le> length targetStates"
  by (induction msgProps)
     (auto split: option.splits if_splits dest: analyzeCommandFactory_message)

text \<open>
  \<^bold>\<open>C5.\<close> A message that the state's map does not hold, or holds with fewer than two
  targets, is passed over by the loop of \<^verbatim>\<open>checkCommands\<close> whatever its command factory
  is, and no report of the state names it.
\<close>

theorem fewer_than_two_targets_never_checked:
  assumes "messageMap messageName = None
           \<or> (\<exists>targetStates. messageMap messageName = Some targetStates \<and> length targetStates < 2)"
  shows "(identifierKey msgProp = Some messageName \<longrightarrow>
            checkMessages (msgProp # msgProps) messageMap = checkMessages msgProps messageMap)
         \<and> (\<forall>r \<in> set (checkMessages msgProps messageMap). data_message r \<noteq> messageName)"
proof
  show "identifierKey msgProp = Some messageName \<longrightarrow>
          checkMessages (msgProp # msgProps) messageMap = checkMessages msgProps messageMap"
    using assms by (auto split: option.splits)
next
  show "\<forall>r \<in> set (checkMessages msgProps messageMap). data_message r \<noteq> messageName"
  proof
    fix r assume "r \<in> set (checkMessages msgProps messageMap)"
    then obtain targetStates where
      "messageMap (data_message r) = Some targetStates" "2 \<le> length targetStates"
      using checkMessages_tracked by blast
    with assms show "data_message r \<noteq> messageName" by auto
  qed
qed

text \<open>
  Scenario D of the specification, with a second message: the config
  \<^verbatim>\<open>on: { activate: ['active', other], stop: ['a', 'b'] }\<close> keeps one entry for
  \<^verbatim>\<open>activate\<close>, so its factory, which always returns \<^verbatim>\<open>active\<close>, is not looked at;
  the only report is the one for \<^verbatim>\<open>stop\<close>.
\<close>

theorem fewer_than_two_targets_never_checked_witness:
  "parseMessages
     [activateEntry [Some (Literal 40 (StringValue ''active'')), Some (Identifier 41 ''other'')],
      Property 16 (Identifier 17 ''stop'') (ArrayExpression 18 (stringElements [''a'', ''b''])) False]
     Map.empty ''activate'' = Some [''active'']
   \<and> checkMessages
       [Property 26 (Identifier 27 ''activate'') (factoryOf (thunkConst ''active'')) False,
        Property 28 (Identifier 29 ''stop'') (factoryFunction ''a'') False]
       (parseMessages
          [activateEntry [Some (Literal 40 (StringValue ''active'')), Some (Identifier 41 ''other'')],
           Property 16 (Identifier 17 ''stop'') (ArrayExpression 18 (stringElements [''a'', ''b'']))
             False]
          Map.empty)
     = [\<lparr> report_node = thunkFunction ''a'', messageId = alwaysSameState,
          data_message = ''stop'', data_count = ''2'',
          data_states = ''a, b'', data_actualState = ''a'' \<rparr>]"
proof -
  let ?mm = "parseMessages
    [activateEntry [Some (Literal 40 (StringValue ''active'')), Some (Identifier 41 ''other'')],
     Property 16 (Identifier 17 ''stop'') (ArrayExpression 18 (stringElements [''a'', ''b''])) False]
    Map.empty"
  let ?activate = "Property 26 (Identifier 27 ''activate'') (factoryOf (thunkConst ''active'')) False"
  let ?stop = "Property 28 (Identifier 29 ''stop'') (factoryFunction ''a'') False"
  have act: "?mm ''activate'' = Some [''active'']"
    by (simp add: activateEntry_def stringElements_def enumerate_eq_zip)
  have stop: "?mm ''stop'' = Some [''a'', ''b'']"
    by (simp add: activateEntry_def stringElements_def enumerate_eq_zip)
  have hyp: "?mm ''activate'' = None
      \<or> (\<exists>targetStates. ?mm ''activate'' = Some targetStates \<and> length targetStates < 2)"
    using act by simp
  have key: "identifierKey ?activate = Some ''activate''" by simp
  have rest: "checkMessages [?stop] mm
     = [\<lparr> report_node = thunkFunction ''a'', messageId = alwaysSameState,
          data_message = ''stop'', data_count = ''2'',
          data_states = ''a, b'', data_actualState = ''a'' \<rparr>]"
    if "mm ''stop'' = Some [''a'', ''b'']" for mm
    using that
    by (simp add: factoryFunction_def thunkFunction_def returnOf_def
          analyzeCommandFactory_def findReturnedStateIds_def setAdd_def toString.simps digit_def)
  show ?thesis
    using fewer_than_two_targets_never_checked [of ?mm "''activate''" ?activate "[?stop]"]
      hyp key act rest [of ?mm] stop
    by simp
qed

subsection \<open>One report for each command entry, from construction to reports\<close>

lemma checkMessages_append:
  "checkMessages (xs @ ys) messageMap = checkMessages xs messageMap @ checkMessages ys messageMap"
  by (induction xs) (auto split: option.splits)

lemma checkStates_append:
  "checkStates (xs @ ys) transitions = checkStates xs transitions @ checkStates ys transitions"
  by (induction xs) (auto split: option.splits node.splits)

lemma checkMessages_named:
  "r \<in> set (checkMessages msgProps messageMap) \<Longrightarrow>
   \<exists>p \<in> set msgProps. identifierKey p = Some (data_message r)"
  by (induction msgProps)
     (auto split: option.splits if_splits dest: analyzeCommandFactory_message)

lemma listener_on_entry:
  assumes "isStateMachine callee"
    and "findConfigAndCommands props (None, None) =
           (Some configProp, Some (ObjectExpression c stateProps))"
    and "stateProps = statesBefore
           @ Property s1 (Identifier s2 stateName) (ObjectExpression s3 msgProps) sc # statesAfter"
    and "msgProps = msgsBefore @ Property m1 (Identifier m2 messageName) factoryNode mc # msgsAfter"
    and "parseStateMachineConfig configProp stateName = Some messageMap"
    and "messageMap messageName = Some targetStates"
    and "2 \<le> length targetStates"
  shows "onNewExpression (NewExpression i callee (ObjectExpression k props # rest)) =
           checkStates statesBefore (parseStateMachineConfig configProp)
           @ checkMessages msgsBefore messageMap
           @ analyzeCommandFactory factoryNode messageName targetStates
           @ checkMessages msgsAfter messageMap
           @ checkStates statesAfter (parseStateMachineConfig configProp)"
  using assms by (simp add: checkStates_append checkMessages_append)

lemma other_entries_other_names:
  assumes "\<forall>p \<in> set (msgsBefore @ msgsAfter). identifierKey p \<noteq> Some messageName"
  shows "\<forall>r \<in> set (checkMessages msgsBefore messageMap @ checkMessages msgsAfter messageMap).
           data_message r \<noteq> messageName"
  using assms checkMessages_named by fastforce

text \<open>
  \<^bold>\<open>C1, amended.\<close> Take a construction that the listener analyzes, a state entry of its
  commands and, in it, a command entry for a message, where the Transition Table gives the
  pair at least two declared targets, an execute thunk is located in the entry's factory,
  and the Returned-State Set of the thunk is exactly \<open>{S}\<close>. Then the reports of the
  analyzer are those of the entries before, then exactly one report for this entry, of
  kind \<^verbatim>\<open>alwaysSameState\<close> (ALWAYS_SAME_STATE), anchored at the thunk, with the message
  name, the declared count, the declared list in order and \<open>S\<close>, then those of the
  entries after. When the state entry writes the message key once, no other report of
  that state entry names the message; a repeated key gets one report per entry.
\<close>

theorem always_same_state_per_entry:
  assumes "isStateMachine callee"
    and "findConfigAndCommands props (None, None) =
           (Some configProp, Some (ObjectExpression c stateProps))"
    and "stateProps = statesBefore
           @ Property s1 (Identifier s2 stateName) (ObjectExpression s3 msgProps) sc # statesAfter"
    and "msgProps = msgsBefore @ Property m1 (Identifier m2 messageName) factoryNode mc # msgsAfter"
    and "parseStateMachineConfig configProp stateName = Some messageMap"
    and "messageMap messageName = Some targetStates"
    and "2 \<le> length targetStates"
    and "findExecuteMethod factoryNode = Some executeFunc"
    and "findReturnedStateIds executeFunc = [S]"
  shows "onNewExpression (NewExpression i callee (ObjectExpression k props # rest)) =
           checkStates statesBefore (parseStateMachineConfig configProp)
           @ checkMessages msgsBefore messageMap
           @ [\<lparr> report_node = executeFunc, messageId = alwaysSameState,
                data_message = messageName,
                data_count = toString (length targetStates),
                data_states = join '', '' targetStates,
                data_actualState = S \<rparr>]
           @ checkMessages msgsAfter messageMap
           @ checkStates statesAfter (parseStateMachineConfig configProp)
         \<and> ((\<forall>p \<in> set (msgsBefore @ msgsAfter). identifierKey p \<noteq> Some messageName) \<longrightarrow>
              (\<forall>r \<in> set (checkMessages msgsBefore messageMap @ checkMessages msgsAfter messageMap).
                 data_message r \<noteq> messageName))"
proof -
  have "analyzeCommandFactory factoryNode messageName targetStates =
          [\<lparr> report_node = executeFunc, messageId = alwaysSameState,
             data_message = messageName,
             data_count = toString (length targetStates),
             data_states = join '', '' targetStates,
             data_actualState = S \<rparr>]"
    using assms(8,9) by (simp add: analyzeCommandFactory_def)
  then show ?thesis
    using listener_on_entry [OF assms(1-4) assms(5) assms(6) assms(7), of i k rest]
      other_entries_other_names [of msgsBefore msgsAfter messageName messageMap]
    by simp
qed

text \<open>
  \<^bold>\<open>C2, amended.\<close> The same for a command entry whose Returned-State Set has more than
  one element and fewer than the declared count: exactly one report for the entry, of kind
  \<^verbatim>\<open>missingUnionReturn\<close> (PARTIAL_UNION), with the message name, the declared count, the
  declared list and all observed identifiers, each once; one report per entry where the
  key is repeated.
\<close>

theorem partial_union_per_entry:
  assumes "isStateMachine callee"
    and "findConfigAndCommands props (None, None) =
           (Some configProp, Some (ObjectExpression c stateProps))"
    and "stateProps = statesBefore
           @ Property s1 (Identifier s2 stateName) (ObjectExpression s3 msgProps) sc # statesAfter"
    and "msgProps = msgsBefore @ Property m1 (Identifier m2 messageName) factoryNode mc # msgsAfter"
    and "parseStateMachineConfig configProp stateName = Some messageMap"
    and "messageMap messageName = Some targetStates"
    and "2 \<le> length targetStates"
    and "findExecuteMethod factoryNode = Some executeFunc"
    and "1 < length (findReturnedStateIds executeFunc)"
    and "length (findReturnedStateIds executeFunc) < length targetStates"
  shows "onNewExpression (NewExpression i callee (ObjectExpression k props # rest)) =
           checkStates statesBefore (parseStateMachineConfig configProp)
           @ checkMessages msgsBefore messageMap
           @ [\<lparr> report_node = executeFunc, messageId = missingUnionReturn,
                data_message = messageName,
                data_count = toString (length targetStates),
                data_states = join '', '' targetStates,
                data_actualState = join '', '' (findReturnedStateIds executeFunc) \<rparr>]
           @ checkMessages msgsAfter messageMap
           @ checkStates statesAfter (parseStateMachineConfig configProp)
         \<and> ((\<forall>p \<in> set (msgsBefore @ msgsAfter). identifierKey p \<noteq> Some messageName) \<longrightarrow>
              (\<forall>r \<in> set (checkMessages msgsBefore messageMap @ checkMessages msgsAfter messageMap).
                 data_message r \<noteq> messageName))
         \<and> distinct (findReturnedStateIds executeFunc)"
proof -
  have "analyzeCommandFactory factoryNode messageName targetStates =
          [\<lparr> report_node = executeFunc, messageId = missingUnionReturn,
             data_message = messageName,
             data_count = toString (length targetStates),
             data_states = join '', '' targetStates,
             data_actualState = join '', '' (findReturnedStateIds executeFunc) \<rparr>]"
    using assms(8,9,10) by (auto simp: analyzeCommandFactory_def Let_def)
  then show ?thesis
    using listener_on_entry [OF assms(1-4) assms(5) assms(6) assms(7), of i k rest]
      other_entries_other_names [of msgsBefore msgsAfter messageName messageMap]
      findReturnedStateIds_distinct [of executeFunc]
    by simp
qed


lemmas machine_defs =
  newStateMachine_def machineOf_def activateEntry_def stopEntry_def stringElements_def
  enumerate_eq_zip findOnProperties_def

lemmas factory_defs =
  factoryOf_def factoryFunction_def factoryReturning_def thunkConst_def thunkFunction_def
  thunkIf_def thunkFunctionIf_def returnOf_def

lemmas report_defs =
  analyzeCommandFactory_def findReturnedStateIds_def setAdd_def toString.simps digit_def

text \<open>
  \<^bold>\<open>C1, as stated, fails.\<close> The claim has exactly one report for the pair. In
  \<^verbatim>\<open>commands: { idle: { activate: f, activate: g } }\<close> the loop of \<^verbatim>\<open>checkCommands\<close>
  meets two entries for the pair (idle, activate) and analyzes both factories: two
  ALWAYS_SAME_STATE reports for one pair.
\<close>

theorem repeated_command_key_counterexample:
  "onNewExpression (newStateMachine
     [machineOf [activateEntry (stringElements [''active'', ''idle''])]
        [Property 26 (Identifier 27 ''activate'') (factoryOf (thunkConst ''active'')) False,
         Property 28 (Identifier 29 ''activate'') (factoryFunction ''active'') False]])
   = [\<lparr> report_node = thunkConst ''active'', messageId = alwaysSameState,
        data_message = ''activate'', data_count = ''2'',
        data_states = ''active, idle'', data_actualState = ''active'' \<rparr>,
      \<lparr> report_node = thunkFunction ''active'', messageId = alwaysSameState,
        data_message = ''activate'', data_count = ''2'',
        data_states = ''active, idle'', data_actualState = ''active'' \<rparr>]"
  by (simp add: machine_defs factory_defs report_defs)

text \<open>
  \<^bold>\<open>C2, as stated, fails.\<close> With the command key \<^verbatim>\<open>activate\<close> written twice, both
  factories returning \<^verbatim>\<open>a\<close> or \<^verbatim>\<open>b\<close> where three targets are declared, the pair
  gets two PARTIAL_UNION reports.
\<close>

theorem repeated_partial_command_key_counterexample:
  "onNewExpression (newStateMachine
     [machineOf [activateEntry (stringElements [''a'', ''b'', ''c''])]
        [Property 26 (Identifier 27 ''activate'') (factoryOf (thunkIf ''a'' ''b'')) False,
         Property 28 (Identifier 29 ''activate'')
           (factoryReturning (thunkFunctionIf ''a'' ''b'')) False]])
   = [\<lparr> report_node = thunkIf ''a'' ''b'', messageId = missingUnionReturn,
        data_message = ''activate'', data_count = ''3'',
        data_states = ''a, b, c'', data_actualState = ''a, b'' \<rparr>,
      \<lparr> report_node = thunkFunctionIf ''a'' ''b'', messageId = missingUnionReturn,
        data_message = ''activate'', data_count = ''3'',
        data_states = ''a, b, c'', data_actualState = ''a, b'' \<rparr>]"
  by (simp add: machine_defs factory_defs report_defs)

text \<open>
  Scenario A of the specification between two other commands: \<^verbatim>\<open>stop\<close>, declared
  \<^verbatim>\<open>['a', 'b']\<close> and always returning \<^verbatim>\<open>a\<close>, has its own report before;
  \<^verbatim>\<open>reset\<close>, which is not declared, has none after.
\<close>

theorem always_same_state_per_entry_witness:
  "onNewExpression (newStateMachine
     [machineOf [activateEntry (stringElements [''active'', ''idle'']), stopEntry]
        [Property 28 (Identifier 29 ''stop'') (factoryFunction ''a'') False,
         Property 26 (Identifier 27 ''activate'') (factoryOf (thunkConst ''active'')) False,
         Property 36 (Identifier 37 ''reset'') (Identifier 38 ''makeReset'') False]])
   = [\<lparr> report_node = thunkFunction ''a'', messageId = alwaysSameState,
        data_message = ''stop'', data_count = ''2'',
        data_states = ''a, b'', data_actualState = ''a'' \<rparr>,
      \<lparr> report_node = thunkConst ''active'', messageId = alwaysSameState,
        data_message = ''activate'', data_count = ''2'',
        data_states = ''active, idle'', data_actualState = ''active'' \<rparr>]"
proof -
  let ?stop = "Property 28 (Identifier 29 ''stop'') (factoryFunction ''a'') False"
  let ?activate = "Property 26 (Identifier 27 ''activate'') (factoryOf (thunkConst ''active'')) False"
  let ?reset = "Property 36 (Identifier 37 ''reset'') (Identifier 38 ''makeReset'') False"
  let ?msgs = "[activateEntry (stringElements [''active'', ''idle'']), stopEntry]"
  let ?config = "ObjectExpression 5
             [Property 6 (Identifier 7 ''idle'')
                (ObjectExpression 8
                   [Property 9 (Identifier 10 ''on'') (ObjectExpression 11 ?msgs) False])
                False]"
  let ?cmds = "[?stop, ?activate, ?reset]"
  let ?states = "[Property 23 (Identifier 24 ''idle'') (ObjectExpression 25 ?cmds) False]"
  let ?props = "[Property 3 (Identifier 4 ''config'') ?config False,
        Property 20 (Identifier 21 ''commands'') (ObjectExpression 22 ?states) False]"
  let ?mm = "parseMessages ?msgs Map.empty"
  have h1: "isStateMachine (Identifier 1 ''StateMachine'')" by simp
  have h2: "findConfigAndCommands ?props (None, None) =
      (Some ?config, Some (ObjectExpression 22 ?states))"
    by simp
  have h3: "?states =
      [] @ Property 23 (Identifier 24 ''idle'') (ObjectExpression 25 ?cmds) False # []" by simp
  have h4: "?cmds = [?stop] @ ?activate # [?reset]" by simp
  have h5: "parseStateMachineConfig ?config ''idle'' = Some ?mm"
    by (simp add: findOnProperties_def)
  have h6: "?mm ''activate'' = Some [''active'', ''idle'']"
    by (simp add: machine_defs)
  have h7: "2 \<le> length [''active'', ''idle'']" by simp
  have h8: "findExecuteMethod (factoryOf (thunkConst ''active'')) = Some (thunkConst ''active'')"
    by (simp add: factory_defs)
  have ids: "findReturnedStateIds (thunkConst ''active'') = [''active'']"
    by (simp add: factory_defs report_defs)

  have stop: "?mm ''stop'' = Some [''a'', ''b'']"
    by (simp add: machine_defs)
  have before: "checkMessages [?stop] mm =
      [\<lparr> report_node = thunkFunction ''a'', messageId = alwaysSameState,
         data_message = ''stop'', data_count = ''2'',
         data_states = ''a, b'', data_actualState = ''a'' \<rparr>]"
    if "mm ''stop'' = Some [''a'', ''b'']" for mm
    using that by (simp add: factory_defs report_defs)
  have after: "checkMessages [?reset] mm = []" for mm
    by (simp add: analyzeCommandFactory_def split: option.splits)
  have cnt: "toString (length [''active'', ''idle'']) = ''2''"
    by (simp add: toString.simps digit_def)
  show ?thesis
    using always_same_state_per_entry [OF h1 h2 h3 h4 h5 h6 h7 h8 ids, of 0 2 "[]"]
      before [of ?mm] stop after [of ?mm] cnt ids
    by (simp add: newStateMachine_def machineOf_def)
qed

text \<open>
  Scenario C of the specification between the same two other commands.
\<close>

theorem partial_union_per_entry_witness:
  "onNewExpression (newStateMachine
     [machineOf [activateEntry (stringElements [''a'', ''b'', ''c'']), stopEntry]
        [Property 28 (Identifier 29 ''stop'') (factoryFunction ''a'') False,
         Property 26 (Identifier 27 ''activate'') (factoryOf (thunkIf ''a'' ''b'')) False,
         Property 36 (Identifier 37 ''reset'') (Identifier 38 ''makeReset'') False]])
   = [\<lparr> report_node = thunkFunction ''a'', messageId = alwaysSameState,
        data_message = ''stop'', data_count = ''2'',
        data_states = ''a, b'', data_actualState = ''a'' \<rparr>,
      \<lparr> report_node = thunkIf ''a'' ''b'', messageId = missingUnionReturn,
        data_message = ''activate'', data_count = ''3'',
        data_states = ''a, b, c'', data_actualState = ''a, b'' \<rparr>]"
proof -
  let ?stop = "Property 28 (Identifier 29 ''stop'') (factoryFunction ''a'') False"
  let ?activate = "Property 26 (Identifier 27 ''activate'') (factoryOf (thunkIf ''a'' ''b'')) False"
  let ?reset = "Property 36 (Identifier 37 ''reset'') (Identifier 38 ''makeReset'') False"
  let ?msgs = "[activateEntry (stringElements [''a'', ''b'', ''c'']), stopEntry]"
  let ?config = "ObjectExpression 5
             [Property 6 (Identifier 7 ''idle'')
                (ObjectExpression 8
                   [Property 9 (Identifier 10 ''on'') (ObjectExpression 11 ?msgs) False])
                False]"
  let ?cmds = "[?stop, ?activate, ?reset]"
  let ?states = "[Property 23 (Identifier 24 ''idle'') (ObjectExpression 25 ?cmds) False]"
  let ?props = "[Property 3 (Identifier 4 ''config'') ?config False,
        Property 20 (Identifier 21 ''commands'') (ObjectExpression 22 ?states) False]"
  let ?mm = "parseMessages ?msgs Map.empty"
  have h1: "isStateMachine (Identifier 1 ''StateMachine'')" by simp
  have h2: "findConfigAndCommands ?props (None, None) =
      (Some ?config, Some (ObjectExpression 22 ?states))"
    by simp
  have h3: "?states =
      [] @ Property 23 (Identifier 24 ''idle'') (ObjectExpression 25 ?cmds) False # []" by simp
  have h4: "?cmds = [?stop] @ ?activate # [?reset]" by simp
  have h5: "parseStateMachineConfig ?config ''idle'' = Some ?mm"
    by (simp add: findOnProperties_def)
  have h6: "?mm ''activate'' = Some [''a'', ''b'', ''c'']"
    by (simp add: machine_defs)
  have h7: "2 \<le> length [''a'', ''b'', ''c'']" by simp
  have h8: "findExecuteMethod (factoryOf (thunkIf ''a'' ''b'')) = Some (thunkIf ''a'' ''b'')"
    by (simp add: factory_defs)
  have ids: "findReturnedStateIds (thunkIf ''a'' ''b'') = [''a'', ''b'']"
    by (simp add: factory_defs report_defs)
  have lo: "1 < length (findReturnedStateIds (thunkIf ''a'' ''b''))" using ids by simp
  have hi: "length (findReturnedStateIds (thunkIf ''a'' ''b'')) < length [''a'', ''b'', ''c'']"
    using ids by simp
  have stop: "?mm ''stop'' = Some [''a'', ''b'']"
    by (simp add: machine_defs)
  have before: "checkMessages [?stop] mm =
      [\<lparr> report_node = thunkFunction ''a'', messageId = alwaysSameState,
         data_message = ''stop'', data_count = ''2'',
         data_states = ''a, b'', data_actualState = ''a'' \<rparr>]"
    if "mm ''stop'' = Some [''a'', ''b'']" for mm
    using that by (simp add: factory_defs report_defs)
  have after: "checkMessages [?reset] mm = []" for mm
    by (simp add: analyzeCommandFactory_def split: option.splits)
  have cnt: "toString (length [''a'', ''b'', ''c'']) = ''3''"
    by (simp add: toString.simps digit_def)
  show ?thesis
    using partial_union_per_entry [OF h1 h2 h3 h4 h5 h6 h7 h8 lo hi, of 0 2 "[]"]
      before [of ?mm] stop after [of ?mm] cnt ids
    by (simp add: newStateMachine_def machineOf_def)
qed

subsection \<open>The Config Extractor\<close>

lemma literalString_case:
  "(case elem of Some (Literal _ (StringValue v)) \<Rightarrow> f v | _ \<Rightarrow> g) =
   (case literalString elem of Some v \<Rightarrow> f v | None \<Rightarrow> g)"
  by (cases elem rule: literalString.cases) simp_all

lemma pushTargetStates_append:
  "pushTargetStates elems acc = acc @ List.map_filter literalString elems"
  by (induction elems arbitrary: acc)
     (simp_all add: literalString_case map_filter_simps split: option.splits)

lemma targetStatesOf_declared: "targetStatesOf v = declaredTargetList v"
  by (cases v) (simp_all add: pushTargetStates_append)

lemma identifierKey_propValue: "identifierKey p = Some n \<Longrightarrow> \<exists>v. propValue p = Some v"
  by (cases p rule: identifierKey.cases) simp_all

lemma retainedLists_Nil [simp]: "retainedLists m [] = []"
  by (simp add: retainedLists_def)

lemma retainedLists_Cons:
  "retainedLists m (p # ps) =
     (case (identifierKey p, propValue p) of
        (Some n, Some v) \<Rightarrow>
          if n = m \<and> declaredTargetList v \<noteq> [] then declaredTargetList v # retainedLists m ps
          else retainedLists m ps
      | _ \<Rightarrow> retainedLists m ps)"
  by (auto simp: retainedLists_def split: option.splits dest: identifierKey_propValue)

lemma parseMessages_lookup:
  "parseMessages msgProps messageMap m =
     (case retainedLists m msgProps of [] \<Rightarrow> messageMap m | ts # tss \<Rightarrow> Some (last (ts # tss)))"
proof (induction msgProps arbitrary: messageMap)
  case Nil
  show ?case by simp
next
  case (Cons p ps)
  show ?case
    by (simp add: Cons.IH retainedLists_Cons targetStatesOf_declared Let_def
          split: option.splits list.splits)
qed

lemma parseMessages_empty:
  "parseMessages msgProps Map.empty m = lastOption (retainedLists m msgProps)"
  by (simp add: parseMessages_lookup lastOption_def split: list.splits)


lemma parseMessages_single_entry:
  assumes "filter (\<lambda>p. identifierKey p = Some m) msgProps = [Property i key v computed]"
  shows "parseMessages msgProps Map.empty m =
           (if declaredTargetList v = [] then None else Some (declaredTargetList v))"
  using assms by (simp add: parseMessages_empty retainedLists_def lastOption_def)

lemma parseStates_lookup:
  "parseStates stateProps transitions s =
     (case List.map_filter (stateEntry s) stateProps of
        [] \<Rightarrow> transitions s
      | mm # mms \<Rightarrow> Some (last (mm # mms)))"
proof (induction stateProps arbitrary: transitions)
  case Nil
  show ?case by (simp add: map_filter_simps)
next
  case (Cons p ps)
  show ?case
    by (auto simp: Cons.IH map_filter_simps stateEntry_def parseMessages_empty fun_eq_iff
          split: option.splits list.splits node.splits)
qed

text \<open>
  \<^bold>\<open>C6.\<close> The list built for a message entry is the subsequence of the plain string
  literals among the elements of its array, in order and with duplicates; the map of a
  state holds for each message name the list of its last entry that retains anything, and
  holds nothing for a name whose entries all retain nothing; the table holds for each
  state name the map of its last entry that is a literal structure with a literal
  \<^verbatim>\<open>on\<close> structure.
\<close>

theorem declared_target_lists_extracted:
  "targetStatesOf v = declaredTargetList v
   \<and> parseMessages msgProps Map.empty messageName = lastOption (retainedLists messageName msgProps)
   \<and> parseStateMachineConfig (ObjectExpression i stateProps) stateName =
       lastOption (List.map_filter (stateEntry stateName) stateProps)"
  by (simp add: targetStatesOf_declared parseMessages_empty parseStates_lookup lastOption_def
        split: list.splits)

text \<open>
  An array with a reference, a hole and a number among its elements keeps its two string
  literals; \<^verbatim>\<open>stop: [other]\<close> retains nothing and is absent from the map; a repeated
  literal stays repeated in the table.
\<close>

theorem declared_target_lists_extracted_witness:
  "targetStatesOf (ArrayExpression 14
      [Some (Literal 40 (StringValue ''active'')), Some (Identifier 41 ''other''), None,
       Some (Literal 42 (NumberValue 3)), Some (Literal 43 (StringValue ''active''))])
     = [''active'', ''active'']
   \<and> parseMessages
       [activateEntry (stringElements [''active'', ''idle'']),
        Property 16 (Identifier 17 ''stop'') (ArrayExpression 18 [Some (Identifier 19 ''other'')]) False]
       Map.empty ''activate'' = Some [''active'', ''idle'']
   \<and> parseMessages
       [activateEntry (stringElements [''active'', ''idle'']),
        Property 16 (Identifier 17 ''stop'') (ArrayExpression 18 [Some (Identifier 19 ''other'')]) False]
       Map.empty ''stop'' = None
   \<and> lookupTargets
       (parseStateMachineConfig (configOf (Identifier 7 ''idle'') False
          [Some (Literal 40 (StringValue ''b'')), Some (Identifier 41 ''other''),
           Some (Literal 42 (StringValue ''a'')), Some (Literal 43 (StringValue ''b''))]))
       ''idle'' ''activate'' = Some [''b'', ''a'', ''b'']"
proof -
  let ?v = "ArrayExpression 14
      [Some (Literal 40 (StringValue ''active'')), Some (Identifier 41 ''other''), None,
       Some (Literal 42 (NumberValue 3)), Some (Literal 43 (StringValue ''active''))]"
  let ?msgs = "[activateEntry (stringElements [''active'', ''idle'']),
        Property 16 (Identifier 17 ''stop'') (ArrayExpression 18 [Some (Identifier 19 ''other'')]) False]"
  let ?states = "[Property 6 (Identifier 7 ''idle'')
          (ObjectExpression 8
             [Property 9 (Identifier 10 ''on'')
                (ObjectExpression 11 [activateEntry
                   [Some (Literal 40 (StringValue ''b'')), Some (Identifier 41 ''other''),
                    Some (Literal 42 (StringValue ''a'')), Some (Literal 43 (StringValue ''b''))]])
                False])
          False]"
  have a: "declaredTargetList ?v = [''active'', ''active'']"
    by (simp add: map_filter_simps)
  have b: "lastOption (retainedLists ''activate'' ?msgs) = Some [''active'', ''idle'']"
    by (simp add: lastOption_def retainedLists_def activateEntry_def stringElements_def
          map_filter_simps enumerate_eq_zip)
  have c: "lastOption (retainedLists ''stop'' ?msgs) = None"
    by (simp add: lastOption_def retainedLists_def activateEntry_def stringElements_def
          map_filter_simps)
  have d: "lookupTargets (\<lambda>s. lastOption (List.map_filter (stateEntry s) ?states))
             ''idle'' ''activate'' = Some [''b'', ''a'', ''b'']"
    by (simp add: lookupTargets_def lastOption_def map_filter_simps stateEntry_def
          findOnProperties_def retainedLists_def activateEntry_def)
  have e: "parseStateMachineConfig (ObjectExpression 5 ?states) =
             (\<lambda>s. lastOption (List.map_filter (stateEntry s) ?states))"
    using declared_target_lists_extracted [of ?v ?msgs "''activate''" 5 ?states] by blast
  show ?thesis
    using declared_target_lists_extracted [of ?v ?msgs "''activate''" 5 ?states "''idle''"]
      declared_target_lists_extracted [of ?v ?msgs "''stop''" 5 ?states "''idle''"]
      a b c d e
    by (simp add: configOf_def)
qed

subsection \<open>The Syntax Locator\<close>

text \<open>
  \<^bold>\<open>C7, as stated, fails.\<close> The claim asks for a sole constructor argument. The
  construction \<^verbatim>\<open>new StateMachine({ config: ..., commands: ... }, 42)\<close> has two
  arguments and is analyzed all the same: the listener tests \<^verbatim>\<open>arguments[0]\<close> only.
\<close>

theorem sole_argument_counterexample:
  "length [machineArg (stringElements [''active'', ''idle'']) (factoryOf (thunkConst ''active'')),
           Literal 200 (NumberValue 42)] = 2
   \<and> onNewExpression (newStateMachine
        [machineArg (stringElements [''active'', ''idle'']) (factoryOf (thunkConst ''active'')),
         Literal 200 (NumberValue 42)])
      = [\<lparr> report_node = thunkConst ''active'', messageId = alwaysSameState,
           data_message = ''activate'', data_count = ''2'',
           data_states = ''active, idle'', data_actualState = ''active'' \<rparr>]"
  by (simp add: newStateMachine_def machineArg_def configOf_def commandsOf_def activateEntry_def
        stringElements_def factoryOf_def thunkConst_def findOnProperties_def
        analyzeCommandFactory_def findReturnedStateIds_def setAdd_def toString.simps digit_def
        enumerate_eq_zip)

lemma isStateMachine_cases:
  "isStateMachine callee = (recognizedName callee \<or> computedLookup callee)"
  by (cases callee rule: isStateMachine.cases) auto

text \<open>
  \<^bold>\<open>C7, amended.\<close> The listener analyzes a construction expression when the
  constructed name is the recognized name (directly, or as the final segment of a
  qualified path) and the first constructor argument is a literal structure, whatever
  arguments follow it: the reports are those of checking the \<^verbatim>\<open>commands\<close> entry
  against the table of the \<^verbatim>\<open>config\<close> entry of that structure. A construction
  expression without arguments, or whose first argument is not a literal structure, or
  whose callee is neither the recognized name nor a computed lookup
  \<^verbatim>\<open>fsm[StateMachine]\<close>, gives no report. Nothing is said about a computed lookup with
  a literal structure as first argument.
\<close>

theorem locator_checks_first_argument:
  "(recognizedName callee \<longrightarrow>
      onNewExpression (NewExpression i callee (ObjectExpression k props # rest)) =
        (case findConfigAndCommands props (None, None) of
           (Some configProp, Some commandsProp) \<Rightarrow>
             checkCommands commandsProp (parseStateMachineConfig configProp)
         | _ \<Rightarrow> []))
   \<and> (arguments = [] \<or> \<not> isObjectExpression (hd arguments)
        \<or> (\<not> recognizedName callee \<and> \<not> computedLookup callee) \<longrightarrow>
        onNewExpression (NewExpression i callee arguments) = [])"
  by (cases arguments) (auto simp: isStateMachine_cases)

text \<open>
  \<^verbatim>\<open>new fsm.StateMachine({...}, 42)\<close> is analyzed and gives the report of Scenario A;
  \<^verbatim>\<open>new StateMachine(options)\<close>, \<^verbatim>\<open>new StateMachine()\<close>, \<^verbatim>\<open>new Machine({...})\<close> and
  \<^verbatim>\<open>new fsm['StateMachine']({...})\<close> are skipped.
\<close>

theorem locator_checks_first_argument_witness:
  "onNewExpression
     (NewExpression 0
        (MemberExpression 1 (Identifier 201 ''fsm'') (Identifier 202 ''StateMachine'') False)
        [machineArg (stringElements [''active'', ''idle'']) (factoryOf (thunkConst ''active'')),
         Literal 200 (NumberValue 42)])
     = [\<lparr> report_node = thunkConst ''active'', messageId = alwaysSameState,
          data_message = ''activate'', data_count = ''2'',
          data_states = ''active, idle'', data_actualState = ''active'' \<rparr>]
   \<and> onNewExpression (newStateMachine [Identifier 2 ''options'']) = []
   \<and> onNewExpression (newStateMachine []) = []
   \<and> onNewExpression
       (NewExpression 0 (Identifier 1 ''Machine'')
          [machineArg (stringElements [''active'', ''idle'']) (factoryOf (thunkConst ''active''))])
     = []
   \<and> onNewExpression
       (NewExpression 0
          (MemberExpression 1 (Identifier 201 ''fsm'') (Literal 202 (StringValue ''StateMachine''))
             True)
          [machineArg (stringElements [''active'', ''idle'']) (factoryOf (thunkConst ''active''))])
     = []"
proof -
  let ?arg = "machineArg (stringElements [''active'', ''idle'']) (factoryOf (thunkConst ''active''))"
  let ?props = "[Property 3 (Identifier 4 ''config'')
          (configOf (Identifier 7 ''idle'') False (stringElements [''active'', ''idle''])) False,
        Property 20 (Identifier 21 ''commands'') (commandsOf (factoryOf (thunkConst ''active'')))
          False]"
  have arg: "?arg = ObjectExpression 2 ?props"
    by (simp add: machineArg_def)
  have analysis: "(case findConfigAndCommands ?props (None, None) of
           (Some configProp, Some commandsProp) \<Rightarrow>
             checkCommands commandsProp (parseStateMachineConfig configProp)
         | _ \<Rightarrow> [])
     = [\<lparr> report_node = thunkConst ''active'', messageId = alwaysSameState,
          data_message = ''activate'', data_count = ''2'',
          data_states = ''active, idle'', data_actualState = ''active'' \<rparr>]"
    by (simp add: configOf_def commandsOf_def activateEntry_def stringElements_def
          enumerate_eq_zip findOnProperties_def factoryOf_def thunkConst_def
          analyzeCommandFactory_def findReturnedStateIds_def setAdd_def toString.simps digit_def)
  have t1: "onNewExpression
     (NewExpression 0
        (MemberExpression 1 (Identifier 201 ''fsm'') (Identifier 202 ''StateMachine'') False)
        (ObjectExpression 2 ?props # [Literal 200 (NumberValue 42)]))
     = [\<lparr> report_node = thunkConst ''active'', messageId = alwaysSameState,
          data_message = ''activate'', data_count = ''2'',
          data_states = ''active, idle'', data_actualState = ''active'' \<rparr>]"
    using locator_checks_first_argument [of
        "MemberExpression 1 (Identifier 201 ''fsm'') (Identifier 202 ''StateMachine'') False"
        0 2 ?props "[Literal 200 (NumberValue 42)]" "[]"] analysis
    by simp
  have t2: "onNewExpression (NewExpression 0 (Identifier 1 ''StateMachine'') [Identifier 2 ''options''])
      = []"
    using locator_checks_first_argument [of "Identifier 1 ''StateMachine''" 0 2 "[]" "[]"
        "[Identifier 2 ''options'']"]
    by simp
  have t3: "onNewExpression (NewExpression 0 (Identifier 1 ''StateMachine'') []) = []"
    using locator_checks_first_argument [of "Identifier 1 ''StateMachine''" 0 2 "[]" "[]" "[]"]
    by simp
  have t4: "onNewExpression (NewExpression 0 (Identifier 1 ''Machine'') [ObjectExpression 2 ?props])
      = []"
    using locator_checks_first_argument [of "Identifier 1 ''Machine''" 0 2 "[]" "[]"
        "[ObjectExpression 2 ?props]"]
    by simp
  have t5: "onNewExpression
       (NewExpression 0
          (MemberExpression 1 (Identifier 201 ''fsm'') (Literal 202 (StringValue ''StateMachine''))
             True)
          [ObjectExpression 2 ?props])
     = []"
    using locator_checks_first_argument [of
        "MemberExpression 1 (Identifier 201 ''fsm'') (Literal 202 (StringValue ''StateMachine'')) True"
        0 2 "[]" "[]" "[ObjectExpression 2 ?props]"]
    by simp
  show ?thesis
    using t1 t2 t3 t4 t5 by (simp add: arg newStateMachine_def)
qed

subsection \<open>Only the \<^verbatim>\<open>execute\<close> property is consulted\<close>

lemma getExecuteLoop_withoutUndo:
  "getExecuteLoop (filter (\<lambda>p. identifierKey p \<noteq> Some ''undo'') properties) =
   getExecuteLoop properties"
  by (induction properties) (auto split: option.splits)

lemma getExecuteFromObject_withoutUndo:
  "getExecuteFromObject (withoutUndo n) = getExecuteFromObject n"
  by (cases n) (simp_all add: getExecuteLoop_withoutUndo)

lemma isObjectExpression_withoutUndo: "isObjectExpression (withoutUndo n) = isObjectExpression n"
  by (cases n) simp_all

lemma findExecuteInBody_withoutUndo:
  "findExecuteInBody (map withoutUndoReturn stmts) = findExecuteInBody stmts"
proof (induction stmts)
  case Nil
  show ?case by simp
next
  case (Cons stmt stmts)
  show ?case
    by (cases stmt rule: withoutUndoReturn.cases)
       (simp_all add: Cons.IH getExecuteFromObject_withoutUndo isObjectExpression_withoutUndo)
qed

lemma findExecuteMethod_withoutUndo:
  "findExecuteMethod (withoutUndoFactory factoryNode) = findExecuteMethod factoryNode"
proof (cases factoryNode)
  case (ArrowFunctionExpression i params body)
  then show ?thesis
    by (cases body) (simp_all add: getExecuteLoop_withoutUndo findExecuteInBody_withoutUndo)
next
  case (FunctionExpression i params body)
  then show ?thesis
    by (cases body) (simp_all add: findExecuteInBody_withoutUndo)
qed simp_all

text \<open>
  \<^bold>\<open>C9.\<close> Two command factories that differ only in the presence or the content of
  properties named \<^verbatim>\<open>undo\<close> in their returned structures have the same execute thunk
  located and get the same reports, for every message name and declared list.
\<close>

theorem undo_property_never_inspected:
  assumes "withoutUndoFactory factoryA = withoutUndoFactory factoryB"
  shows "findExecuteMethod factoryA = findExecuteMethod factoryB
         \<and> analyzeCommandFactory factoryA messageName targetStates =
             analyzeCommandFactory factoryB messageName targetStates"
proof -
  have "findExecuteMethod factoryA = findExecuteMethod (withoutUndoFactory factoryA)"
    by (simp add: findExecuteMethod_withoutUndo)
  also have "\<dots> = findExecuteMethod factoryB"
    by (simp add: assms findExecuteMethod_withoutUndo)
  finally show ?thesis
    by (simp add: analyzeCommandFactory_def)
qed

text \<open>
  \<^verbatim>\<open>({ message }) => ({ execute: thunk })\<close> and the same factory with
  \<^verbatim>\<open>undo: () => ({ id: 'idle' })\<close> added: different factories, one and the same report.
\<close>

theorem undo_property_never_inspected_witness:
  "withoutUndoFactory (factoryOf (thunkConst ''active''))
     = withoutUndoFactory (factoryWithUndo (thunkConst ''active'') (thunkConst ''idle''))
   \<and> factoryOf (thunkConst ''active'')
       \<noteq> factoryWithUndo (thunkConst ''active'') (thunkConst ''idle'')
   \<and> analyzeCommandFactory (factoryWithUndo (thunkConst ''active'') (thunkConst ''idle''))
         ''activate'' [''active'', ''idle'']
     = analyzeCommandFactory (factoryOf (thunkConst ''active'')) ''activate'' [''active'', ''idle'']
   \<and> analyzeCommandFactory (factoryOf (thunkConst ''active'')) ''activate'' [''active'', ''idle'']
     = [\<lparr> report_node = thunkConst ''active'', messageId = alwaysSameState,
          data_message = ''activate'', data_count = ''2'',
          data_states = ''active, idle'', data_actualState = ''active'' \<rparr>]"
proof -
  have eq: "withoutUndoFactory (factoryOf (thunkConst ''active''))
     = withoutUndoFactory (factoryWithUndo (thunkConst ''active'') (thunkConst ''idle''))"
    by (simp add: factoryOf_def factoryWithUndo_def)
  have ne: "factoryOf (thunkConst ''active'')
       \<noteq> factoryWithUndo (thunkConst ''active'') (thunkConst ''idle'')"
    by (simp add: factoryOf_def factoryWithUndo_def)
  have r: "analyzeCommandFactory (factoryOf (thunkConst ''active'')) ''activate'' [''active'', ''idle'']
     = [\<lparr> report_node = thunkConst ''active'', messageId = alwaysSameState,
          data_message = ''activate'', data_count = ''2'',
          data_states = ''active, idle'', data_actualState = ''active'' \<rparr>]"
    by (simp add: factoryOf_def thunkConst_def analyzeCommandFactory_def findReturnedStateIds_def
          setAdd_def toString.simps digit_def)
  show ?thesis
    using undo_property_never_inspected [OF eq, of "''activate''" "[''active'', ''idle'']"] eq ne r
    by simp
qed

subsection \<open>Which property keys are recognized\<close>

text \<open>
  \<^bold>\<open>C10, as stated, fails.\<close> The claim has every computed key skipped. In
  \<^verbatim>\<open>{ [idle]: { on: { activate: ['active', 'idle'] } } }\<close> the key of the state entry is
  computed, but its node is an Identifier, and no test reads \<^verbatim>\<open>computed\<close>: the entry
  is in the Transition Table. Likewise \<^verbatim>\<open>{ [id]: 'active' }\<close> yields the id.
\<close>

theorem computed_identifier_key_counterexample:
  "lookupTargets
     (parseStateMachineConfig
        (configOf (Identifier 7 ''idle'') True (stringElements [''active'', ''idle''])))
     ''idle'' ''activate'' = Some [''active'', ''idle'']
   \<and> extractStateIdFromExpression
       (ObjectExpression 101
          [Property 102 (Identifier 103 ''id'') (Literal 104 (StringValue ''active'')) True])
     = Some ''active''"
  by (simp add: lookupTargets_def configOf_def activateEntry_def stringElements_def
        findOnProperties_def enumerate_eq_zip)

lemma extractStateIdLoop_keys:
  "extractStateIdLoop (filter hasIdentifierKey props) = extractStateIdLoop props"
  by (induction props)
     (auto simp: hasIdentifierKey_def split: option.splits node.splits literal_value.splits)

lemma getExecuteLoop_keys:
  "getExecuteLoop (filter hasIdentifierKey props) = getExecuteLoop props"
  by (induction props) (auto simp: hasIdentifierKey_def split: option.splits)

lemma parseMessages_keys:
  "parseMessages (filter hasIdentifierKey props) messageMap = parseMessages props messageMap"
  by (induction props arbitrary: messageMap)
     (auto simp: hasIdentifierKey_def Let_def split: option.splits)

lemma find_keys:
  "find (\<lambda>p. identifierKey p = Some name) (filter hasIdentifierKey props) =
   find (\<lambda>p. identifierKey p = Some name) props"
  by (induction props) (auto simp: hasIdentifierKey_def)

lemma findOnProperties_keys:
  "findOnProperties (filter hasIdentifierKey props) = findOnProperties props"
  by (simp add: findOnProperties_def find_keys)

lemma parseStates_keys:
  "parseStates (filter hasIdentifierKey props) transitions = parseStates props transitions"
  by (induction props arbitrary: transitions)
     (auto simp: hasIdentifierKey_def split: option.splits node.splits)

lemma checkMessages_keys:
  "checkMessages (filter hasIdentifierKey props) messageMap = checkMessages props messageMap"
  by (induction props) (auto simp: hasIdentifierKey_def split: option.splits)

lemma checkStates_keys:
  "checkStates (filter hasIdentifierKey props) transitions = checkStates props transitions"
  by (induction props) (auto simp: hasIdentifierKey_def split: option.splits node.splits)

lemma findConfigAndCommands_keys:
  "findConfigAndCommands (filter hasIdentifierKey props) found = findConfigAndCommands props found"
  by (induction props found rule: findConfigAndCommands.induct)
     (auto simp: hasIdentifierKey_def split: option.splits)

lemma hasIdentifierKey_Property:
  "hasIdentifierKey (Property i key v computed) = isIdentifier key"
  by (cases key) (simp_all add: hasIdentifierKey_def)


lemma identifierKey_withComputed [simp]: "identifierKey (withComputed b p) = identifierKey p"
  by (cases p rule: identifierKey.cases) simp_all

lemma propValue_withComputed [simp]: "propValue (withComputed b p) = propValue p"
  by (cases p) simp_all

lemma extractStateIdLoop_flags:
  "extractStateIdLoop (map (withComputed b) props) = extractStateIdLoop props"
  by (induction props) (auto split: option.splits node.splits literal_value.splits)

lemma getExecuteLoop_flags:
  "getExecuteLoop (map (withComputed b) props) = getExecuteLoop props"
  by (induction props) (auto split: option.splits)

lemma parseMessages_flags:
  "parseMessages (map (withComputed b) props) messageMap = parseMessages props messageMap"
  by (induction props arbitrary: messageMap) (auto simp: Let_def split: option.splits)

lemma findOnProperties_flags:
  "findOnProperties (map (withComputed b) props) = findOnProperties props"
proof -
  have "find (\<lambda>p. identifierKey p = Some ''on'') (map (withComputed b) props) =
        map_option (withComputed b) (find (\<lambda>p. identifierKey p = Some ''on'') props)"
    by (induction props) simp_all
  then show ?thesis
    by (simp add: findOnProperties_def split: option.splits)
qed

lemma parseStates_flags:
  "parseStates (map (withComputed b) props) transitions = parseStates props transitions"
  by (induction props arbitrary: transitions) (auto split: option.splits node.splits)

lemma checkMessages_flags:
  "checkMessages (map (withComputed b) props) messageMap = checkMessages props messageMap"
  by (induction props) (auto split: option.splits)

lemma checkStates_flags:
  "checkStates (map (withComputed b) props) transitions = checkStates props transitions"
  by (induction props) (auto split: option.splits node.splits)

lemma findConfigAndCommands_flags:
  "findConfigAndCommands (map (withComputed b) props) found = findConfigAndCommands props found"
  by (induction props found rule: findConfigAndCommands.induct) (auto split: option.splits)

lemma flags_transfer:
  assumes "\<And>b props. L (map (withComputed b) props) = L props"
    and "sameUpToComputed props props'"
  shows "L props = L props'"
proof -
  have "L props = L (map (withComputed False) props)" by (simp add: assms(1))
  also have "\<dots> = L (map (withComputed False) props')"
    using assms(2) by (simp add: sameUpToComputed_def)
  also have "\<dots> = L props'" by (simp add: assms(1))
  finally show ?thesis .
qed


text \<open>
  \<^bold>\<open>C10, amended.\<close> At every place where the analysis reads entries (the config
  and commands of the constructor argument, the states and messages of the config, its
  \<^verbatim>\<open>on\<close> entry, the states and messages of the commands, \<^verbatim>\<open>execute\<close> and
  \<^verbatim>\<open>id\<close>) an entry that is not a property whose key node is an Identifier is
  skipped: removing all such entries changes no result. A property has such a key exactly
  when its key node is an Identifier; a key written as a string literal or as any other
  expression is not one. The \<^verbatim>\<open>computed\<close> flag is consulted nowhere: two lists of
  entries that differ in these flags only give the same result at every one of these
  places, so \<^verbatim>\<open>[idle]\<close> is read like \<^verbatim>\<open>idle\<close>.
\<close>

theorem identifier_keys_only:
  "findConfigAndCommands (filter hasIdentifierKey props) found = findConfigAndCommands props found
   \<and> parseStates (filter hasIdentifierKey props) transitions = parseStates props transitions
   \<and> findOnProperties (filter hasIdentifierKey props) = findOnProperties props
   \<and> parseMessages (filter hasIdentifierKey props) messageMap = parseMessages props messageMap
   \<and> checkStates (filter hasIdentifierKey props) transitions = checkStates props transitions
   \<and> checkMessages (filter hasIdentifierKey props) messageMap = checkMessages props messageMap
   \<and> getExecuteLoop (filter hasIdentifierKey props) = getExecuteLoop props
   \<and> extractStateIdLoop (filter hasIdentifierKey props) = extractStateIdLoop props
   \<and> hasIdentifierKey (Property i key v computed) = isIdentifier key
   \<and> (sameUpToComputed props props' \<longrightarrow>
        findConfigAndCommands props found = findConfigAndCommands props' found
        \<and> parseStates props transitions = parseStates props' transitions
        \<and> findOnProperties props = findOnProperties props'
        \<and> parseMessages props messageMap = parseMessages props' messageMap
        \<and> checkStates props transitions = checkStates props' transitions
        \<and> checkMessages props messageMap = checkMessages props' messageMap
        \<and> getExecuteLoop props = getExecuteLoop props'
        \<and> extractStateIdLoop props = extractStateIdLoop props')"
proof -
  have flags: "findConfigAndCommands props found = findConfigAndCommands props' found
        \<and> parseStates props transitions = parseStates props' transitions
        \<and> findOnProperties props = findOnProperties props'
        \<and> parseMessages props messageMap = parseMessages props' messageMap
        \<and> checkStates props transitions = checkStates props' transitions
        \<and> checkMessages props messageMap = checkMessages props' messageMap
        \<and> getExecuteLoop props = getExecuteLoop props'
        \<and> extractStateIdLoop props = extractStateIdLoop props'"
    if same: "sameUpToComputed props props'"
  proof (intro conjI)
    show "findConfigAndCommands props found = findConfigAndCommands props' found"
      by (rule flags_transfer [where L = "\<lambda>ps. findConfigAndCommands ps found", OF _ same])
         (rule findConfigAndCommands_flags)
    show "parseStates props transitions = parseStates props' transitions"
      by (rule flags_transfer [where L = "\<lambda>ps. parseStates ps transitions", OF _ same])
         (rule parseStates_flags)
    show "findOnProperties props = findOnProperties props'"
      by (rule flags_transfer [where L = findOnProperties, OF _ same])
         (rule findOnProperties_flags)
    show "parseMessages props messageMap = parseMessages props' messageMap"
      by (rule flags_transfer [where L = "\<lambda>ps. parseMessages ps messageMap", OF _ same])
         (rule parseMessages_flags)
    show "checkStates props transitions = checkStates props' transitions"
      by (rule flags_transfer [where L = "\<lambda>ps. checkStates ps transitions", OF _ same])
         (rule checkStates_flags)
    show "checkMessages props messageMap = checkMessages props' messageMap"
      by (rule flags_transfer [where L = "\<lambda>ps. checkMessages ps messageMap", OF _ same])
         (rule checkMessages_flags)
    show "getExecuteLoop props = getExecuteLoop props'"
      by (rule flags_transfer [where L = getExecuteLoop, OF _ same]) (rule getExecuteLoop_flags)
    show "extractStateIdLoop props = extractStateIdLoop props'"
      by (rule flags_transfer [where L = extractStateIdLoop, OF _ same])
         (rule extractStateIdLoop_flags)
  qed
  show ?thesis
    using flags
    by (simp add: findConfigAndCommands_keys parseStates_keys findOnProperties_keys
          parseMessages_keys checkStates_keys checkMessages_keys getExecuteLoop_keys
          extractStateIdLoop_keys hasIdentifierKey_Property)
qed


text \<open>
  The state entry with the quoted key \<^verbatim>\<open>'idle'\<close> contributes nothing to the table, so
  the commands of \<^verbatim>\<open>idle\<close> are not analyzed; \<^verbatim>\<open>{ 'id': 'active' }\<close> yields no id;
  the command entry \<^verbatim>\<open>[activate]: factory\<close> gets the report of \<^verbatim>\<open>activate: factory\<close>.
\<close>

theorem identifier_keys_only_witness:
  "parseStateMachineConfig
     (configOf (Literal 7 (StringValue ''idle'')) False (stringElements [''active'', ''idle'']))
     ''idle'' = None
   \<and> checkCommands (commandsOf (factoryOf (thunkConst ''active'')))
       (parseStateMachineConfig
          (configOf (Literal 7 (StringValue ''idle'')) False (stringElements [''active'', ''idle''])))
     = []
   \<and> extractStateIdFromExpression
       (ObjectExpression 101
          [Property 102 (Literal 103 (StringValue ''id'')) (Literal 104 (StringValue ''active'')) False])
     = None
   \<and> checkMessages
       [Property 26 (Identifier 27 ''activate'') (factoryOf (thunkConst ''active'')) True]
       [''activate'' \<mapsto> [''active'', ''idle'']]
     = [\<lparr> report_node = thunkConst ''active'', messageId = alwaysSameState,
          data_message = ''activate'', data_count = ''2'',
          data_states = ''active, idle'', data_actualState = ''active'' \<rparr>]"
proof -
  let ?state = "Property 6 (Literal 7 (StringValue ''idle''))
          (ObjectExpression 8
             [Property 9 (Identifier 10 ''on'')
                (ObjectExpression 11 [activateEntry (stringElements [''active'', ''idle''])]) False])
          False"
  let ?id = "Property 102 (Literal 103 (StringValue ''id'')) (Literal 104 (StringValue ''active'')) False"
  let ?computed = "Property 26 (Identifier 27 ''activate'') (factoryOf (thunkConst ''active'')) True"
  let ?plain = "Property 26 (Identifier 27 ''activate'') (factoryOf (thunkConst ''active'')) False"
  let ?mm = "[''activate'' \<mapsto> [''active'', ''idle'']]"
  note state = identifier_keys_only [where props = "[?state]" and props' = "[?state]"
      and found = "(None, None)" and transitions = Map.empty and messageMap = Map.empty
      and i = 6 and key = "Literal 7 (StringValue ''idle'')" and v = "Literal 0 NullValue"
      and computed = False]
  note id = identifier_keys_only [where props = "[?id]" and props' = "[?id]"
      and found = "(None, None)" and transitions = Map.empty and messageMap = Map.empty
      and i = 102 and key = "Literal 103 (StringValue ''id'')" and v = "Literal 104 (StringValue ''active'')"
      and computed = False]
  note flag = identifier_keys_only [where props = "[?computed]" and props' = "[?plain]"
      and found = "(None, None)" and transitions = Map.empty and messageMap = ?mm
      and i = 26 and key = "Identifier 27 ''activate''" and v = "Literal 0 NullValue"
      and computed = True]
  have s: "\<not> hasIdentifierKey ?state"
    using identifier_keys_only [where i = 6 and key = "Literal 7 (StringValue ''idle'')"
        and computed = False and props = "[]" and props' = "[]" and found = "(None, None)"
        and transitions = Map.empty and messageMap = Map.empty]
    by simp
  have i: "\<not> hasIdentifierKey ?id"
    using identifier_keys_only [where i = 102 and key = "Literal 103 (StringValue ''id'')"
        and computed = False and props = "[]" and props' = "[]" and found = "(None, None)"
        and transitions = Map.empty and messageMap = Map.empty]
    by simp
  have t: "parseStates [?state] Map.empty = Map.empty"
    using state s by simp
  have e: "extractStateIdLoop [?id] = None"
    using id i by simp
  have same: "sameUpToComputed [?computed] [?plain]"
    by (simp add: sameUpToComputed_def)
  have plain: "checkMessages [?plain] ?mm
     = [\<lparr> report_node = thunkConst ''active'', messageId = alwaysSameState,
          data_message = ''activate'', data_count = ''2'',
          data_states = ''active, idle'', data_actualState = ''active'' \<rparr>]"
    by (simp add: factoryOf_def thunkConst_def analyzeCommandFactory_def
          findReturnedStateIds_def setAdd_def toString.simps digit_def)
  have c: "checkMessages [?computed] ?mm = checkMessages [?plain] ?mm"
    using flag same by blast
  show ?thesis
    using t e c plain by (simp add: configOf_def commandsOf_def)
qed

subsection \<open>The walk: guard, growth and sources\<close>






















subsection \<open>The scenarios of the specification, from construction to reports\<close>

lemmas site_defs =
  newStateMachine_def machineArg_def configOf_def commandsOf_def activateEntry_def
  stringElements_def factoryOf_def findOnProperties_def enumerate_eq_zip

lemmas thunk_defs =
  thunkConst_def thunkIf_def thunkSwitch_def returnOf_def analyzeCommandFactory_def
  findReturnedStateIds_def setAdd_def visitArray_def toString.simps digit_def

lemma scenario_A:
  "onNewExpression (newStateMachine
     [machineArg (stringElements [''active'', ''idle'']) (factoryOf (thunkConst ''active''))])
   = [\<lparr> report_node = thunkConst ''active'', messageId = alwaysSameState,
        data_message = ''activate'', data_count = ''2'',
        data_states = ''active, idle'', data_actualState = ''active'' \<rparr>]"
  by (simp add: site_defs thunk_defs)

lemma scenario_B:
  "onNewExpression (newStateMachine
     [machineArg (stringElements [''active'', ''idle'']) (factoryOf (thunkIf ''idle'' ''active''))])
   = []"
  by (simp add: site_defs thunk_defs)

lemma scenario_C:
  "onNewExpression (newStateMachine
     [machineArg (stringElements [''a'', ''b'', ''c'']) (factoryOf (thunkIf ''a'' ''b''))])
   = [\<lparr> report_node = thunkIf ''a'' ''b'', messageId = missingUnionReturn,
        data_message = ''activate'', data_count = ''3'',
        data_states = ''a, b, c'', data_actualState = ''a, b'' \<rparr>]"
  by (simp add: site_defs thunk_defs)

lemma scenario_D:
  "onNewExpression (newStateMachine
     [machineArg [Some (Literal 40 (StringValue ''active'')), Some (Identifier 41 ''other'')]
        (factoryOf (thunkConst ''active''))])
   = []"
  by (simp add: site_defs thunk_defs)

end
